theory Spec2Isabelle
  imports Main "HOL-Library.Char_ord" "HOL-Library.List_Lexorder" "HOL-Library.Multiset"
begin

section \<open>Local Library: the catalog's request handlers\<close>

text \<open>
  The repository is an Express application over four Mongoose models (Book, Author,
  Genre, BookInstance). Every route handler is a JavaScript function
  \<^verbatim>\<open>(req, res, next)\<close> that reads the request, talks to the database and calls
  \<^verbatim>\<open>res.render\<close>, \<^verbatim>\<open>res.redirect\<close> or \<^verbatim>\<open>next(err)\<close>.

  The embedding: a handler is a function from the request and the database to the list of
  calls it makes on \<^verbatim>\<open>res\<close> and \<^verbatim>\<open>next\<close>, in order, and the database afterwards.
  A Mongoose call builds a query, and only \<^verbatim>\<open>await\<close> runs it; a query that fails
  throws, and the handler's \<^verbatim>\<open>catch\<close> passes the error to \<^verbatim>\<open>next\<close>.
\<close>

subsection \<open>JavaScript values\<close>

text \<open>
  \<^verbatim>\<open>app.js\<close> installs both \<^verbatim>\<open>bodyParser.json()\<close> and
  \<^verbatim>\<open>bodyParser.urlencoded\<close>, so a field of \<^verbatim>\<open>req.body\<close> is any JSON value, or
  \<^verbatim>\<open>undefined\<close> when the field is absent. Numbers are the integer-valued ones. A
  string is the list of its UTF-16 code units, one \<open>char\<close> each: the strings of the model
  are those whose code units are below 256.
\<close>

datatype jsval =
    Undefined
  | Null
  | Bool bool
  | Num int
  | Str string
  | Arr "jsval list"
  | Obj "(string \<times> jsval) list"

type_synonym oid = string

type_synonym jsobject = "(string \<times> jsval) list"

text \<open>\<^verbatim>\<open>obj.key\<close>: the value stored under the key, \<^verbatim>\<open>undefined\<close> when there is none.\<close>

definition field :: "jsobject \<Rightarrow> string \<Rightarrow> jsval" where
  "field obj k = (case map_of obj k of None \<Rightarrow> Undefined | Some v \<Rightarrow> v)"

text \<open>\<^verbatim>\<open>obj.key = v\<close>: an existing key keeps its place, a new one is added last.\<close>

primrec set_field :: "string \<Rightarrow> jsval \<Rightarrow> jsobject \<Rightarrow> jsobject" where
  "set_field k v [] = [(k, v)]"
| "set_field k v (p # ps) = (if fst p = k then (k, v) # ps else p # set_field k v ps)"

text \<open>The elements of an array value; anything else has none.\<close>

definition elems :: "jsval \<Rightarrow> jsval list" where
  "elems v = (case v of Arr vs \<Rightarrow> vs | _ \<Rightarrow> [])"

text \<open>The decimal digits of a number, as JavaScript prints an integer.\<close>

definition digit_char :: "nat \<Rightarrow> char" where
  "digit_char k = ''0123456789'' ! k"

function decimal :: "nat \<Rightarrow> string" where
  "decimal n =
     (if n div 10 = 0 then [digit_char n] else decimal (n div 10) @ [digit_char (n mod 10)])"
  by pat_completeness auto
termination
  by (relation "measure (\<lambda>n. n)") auto

definition string_of_int :: "int \<Rightarrow> string" where
  "string_of_int i = (if i < 0 then CHR ''-'' # decimal (nat (- i)) else decimal (nat i))"

fun join_comma :: "string list \<Rightarrow> string" where
  "join_comma [] = []"
| "join_comma [s] = s"
| "join_comma (s # t # ss) = s @ CHR '','' # join_comma (t # ss)"

text \<open>JavaScript's \<^verbatim>\<open>String(v)\<close>; an array joins its elements with commas.\<close>

fun js_String :: "jsval \<Rightarrow> string" where
  "js_String Undefined = ''undefined''"
| "js_String Null = ''null''"
| "js_String (Bool b) = (if b then ''true'' else ''false'')"
| "js_String (Num n) = string_of_int n"
| "js_String (Str s) = s"
| "js_String (Arr vs) =
     join_comma (map (\<lambda>v. if v = Undefined \<or> v = Null then [] else js_String v) vs)"
| "js_String (Obj ps) = ''[object Object]''"

subsection \<open>Documents and the database\<close>

text \<open>
  The models' schemas are not among the sources; the documents carry the fields the
  controllers pass to the model constructors (the data model of the specification), and
  hold the submitted JavaScript values as they are: the casting of a document's paths by
  its schema and schema validation are not modelled. The \<^verbatim>\<open>_id\<close> of a stored document
  is an ObjectId, written as its 24 lower-case hexadecimal digits.
\<close>

record author =
  author_id :: oid
  first_name :: jsval
  family_name :: jsval
  date_of_birth :: jsval
  date_of_death :: jsval

record genre =
  genre_id :: oid
  name :: jsval

record book =
  book_id :: oid
  title :: jsval
  author :: jsval
  summary :: jsval
  isbn :: jsval
  genre :: jsval

record bookinstance =
  bookinstance_id :: oid
  book :: jsval
  imprint :: jsval
  status :: jsval
  due_back :: jsval

text \<open>Each collection is the list of its documents in storage order.\<close>

record db =
  authors :: "author list"
  genres :: "genre list"
  books :: "book list"
  bookinstances :: "bookinstance list"

datatype model = Book | Author | Genre | BookInstance

subsection \<open>Errors, responses\<close>

text \<open>
  An error passed to \<^verbatim>\<open>next\<close>. Only the not-found errors carry a status (404); the
  application's error handler answers every other one with 500. A CastError is what a
  query throws when the id it is given is no ObjectId.
\<close>

datatype error =
    NotFound string
  | CastError
  | TypeError
  | RangeError
  | DuplicateKey

text \<open>The error handler of \<^verbatim>\<open>app.js\<close>: \<^verbatim>\<open>res.status(err.status || 500)\<close>.\<close>

fun error_status :: "error \<Rightarrow> nat" where
  "error_status (NotFound msg) = 404"
| "error_status e = 500"

text \<open>
  Modelled from the spec: the \<^verbatim>\<open>url\<close> virtual of a model (models/*.js, not among the
  sources) is the document's detail page; \<open>Detail m i\<close> stands for it. \<open>NoUrl\<close> is the
  \<^verbatim>\<open>undefined\<close> read from a value that has no \<^verbatim>\<open>url\<close> property.
\<close>

datatype location = Path string | Detail model oid | NoUrl

type_synonym verror = "string \<times> string"

datatype local =
    VStr string
  | VJs jsval
  | VBody jsobject
  | VErrors "verror list"
  | VAuthor "author option"
  | VAuthors "author list"
  | VGenre "genre option"
  | VGenres "genre list"
  | VChecked "(genre \<times> bool) list"
  | VBook "book option"
  | VBooks "book list"
  | VBookInstance "bookinstance option"
  | VBookInstances "bookinstance list"
  | VQuery

datatype call =
    Render string "(string \<times> local) list"
  | Redirect location
  | Next error

record request =
  params_id :: oid
  body :: jsobject
  errors :: "verror list"

subsection \<open>Mongoose\<close>

text \<open>
  Mongoose and the database driver are dependencies; what the controllers use of them is
  modelled from their documented behaviour.

  A value given where an ObjectId is expected is cast: a string of 12 characters stands for
  the id with those 12 bytes, a string of 24 hexadecimal digits for the id it writes, and
  any other string for none (the query fails with a CastError).
\<close>

definition is_hex :: "char \<Rightarrow> bool" where
  "is_hex c = (c \<in> set ''0123456789abcdefABCDEF'')"

definition lower_hex :: "char \<Rightarrow> char" where
  "lower_hex c =
     (if c = CHR ''A'' then CHR ''a'' else if c = CHR ''B'' then CHR ''b''
      else if c = CHR ''C'' then CHR ''c'' else if c = CHR ''D'' then CHR ''d''
      else if c = CHR ''E'' then CHR ''e'' else if c = CHR ''F'' then CHR ''f'' else c)"

definition hex_of_char :: "char \<Rightarrow> string" where
  "hex_of_char c =
     [''0123456789abcdef'' ! ((of_char c :: nat) div 16),
      ''0123456789abcdef'' ! ((of_char c :: nat) mod 16)]"

definition castObjectId :: "string \<Rightarrow> oid option" where
  "castObjectId s =
     (if length s = 12 then Some (concat (map hex_of_char s))
      else if length s = 24 \<and> list_all is_hex s then Some (map lower_hex s)
      else None)"

text \<open>
  The id a query asks for: \<^verbatim>\<open>undefined\<close> and \<^verbatim>\<open>null\<close> ask for no document, any
  other value is cast from its string form.
\<close>

definition query_id :: "jsval \<Rightarrow> error + oid option" where
  "query_id v =
     (if v = Undefined \<or> v = Null then Inr None
      else (case castObjectId (js_String v) of
              None \<Rightarrow> Inl CastError
            | Some i \<Rightarrow> Inr (Some i)))"

text \<open>The id a stored reference holds (the value is kept as it was submitted).\<close>

definition ref_id :: "jsval \<Rightarrow> oid option" where
  "ref_id v = (case v of Str s \<Rightarrow> castObjectId s | _ \<Rightarrow> None)"

text \<open>
  A model method returns a query; \<^verbatim>\<open>await\<close> runs it against the database, and it is the
  run that casts the conditions and fails. A query that is never awaited (and is given no
  callback) is never sent.
\<close>

type_synonym 'a query = "db \<Rightarrow> (error + 'a) \<times> db"

definition await :: "'a query \<Rightarrow> db \<Rightarrow> (error + 'a) \<times> db" where
  "await q d = q d"

text \<open>
  \<^verbatim>\<open>const x = await q; ...\<close> inside \<^verbatim>\<open>try { ... } catch (err) { return next(err); }\<close>:
  a query that fails ends the handler with \<^verbatim>\<open>next(err)\<close>. Every \<^verbatim>\<open>await\<close> of the
  handlers below stands in such a block, before any call on \<^verbatim>\<open>res\<close>.
\<close>

definition try_await ::
  "'a query \<Rightarrow> db \<Rightarrow> ('a \<Rightarrow> db \<Rightarrow> call list \<times> db) \<Rightarrow> call list \<times> db" where
  "try_await q d k = (case await q d of (Inl err, d') \<Rightarrow> ([Next err], d') | (Inr x, d') \<Rightarrow> k x d')"

text \<open>A query object is an object: it is never \<^verbatim>\<open>== null\<close>, and it has no \<^verbatim>\<open>url\<close>.\<close>

definition query_is_null :: "'a query \<Rightarrow> bool" where
  "query_is_null q = False"

definition query_url :: "'a query \<Rightarrow> location" where
  "query_url q = NoUrl"

text \<open>A query under an id: the cast first, then the operation on the collection.\<close>

definition on_id :: "jsval \<Rightarrow> (oid option \<Rightarrow> db \<Rightarrow> 'a \<times> db) \<Rightarrow> 'a query" where
  "on_id v run =
     (\<lambda>d. case query_id v of
            Inl e \<Rightarrow> (Inl e, d)
          | Inr i \<Rightarrow> (case run i d of (x, d') \<Rightarrow> (Inr x, d')))"

definition findById :: "('d \<Rightarrow> oid) \<Rightarrow> 'd list \<Rightarrow> oid option \<Rightarrow> 'd option" where
  "findById ident coll i = (case i of None \<Rightarrow> None | Some j \<Rightarrow> find (\<lambda>x. ident x = j) coll)"

definition removeById :: "('d \<Rightarrow> oid) \<Rightarrow> 'd list \<Rightarrow> oid option \<Rightarrow> 'd list" where
  "removeById ident coll i =
     (case i of None \<Rightarrow> coll | Some j \<Rightarrow> filter (\<lambda>x. ident x \<noteq> j) coll)"

definition updateById :: "('d \<Rightarrow> oid) \<Rightarrow> 'd list \<Rightarrow> oid option \<Rightarrow> ('d \<Rightarrow> 'd) \<Rightarrow> 'd list" where
  "updateById ident coll i upd =
     (case i of None \<Rightarrow> coll | Some j \<Rightarrow> map (\<lambda>x. if ident x = j then upd x else x) coll)"

text \<open>
  A query condition \<^verbatim>\<open>{path: id}\<close> on a reference matches a field that holds the id; on
  the array path \<^verbatim>\<open>genre\<close> of a book it also matches an array with an element that
  holds it. Asked for no id, it matches a field that is not set.
\<close>

definition holds :: "jsval \<Rightarrow> oid option \<Rightarrow> bool" where
  "holds fld i =
     (case i of None \<Rightarrow> fld = Undefined \<or> fld = Null | Some j \<Rightarrow> ref_id fld = Some j)"

definition matches :: "jsval \<Rightarrow> oid option \<Rightarrow> bool" where
  "matches fld i = (holds fld i \<or> list_ex (\<lambda>e. holds e i) (elems fld))"

text \<open>\<^verbatim>\<open>Model.find()\<close>, \<^verbatim>\<open>Model.find({path: v})\<close>, \<^verbatim>\<open>Model.findById(v)\<close>, \<^verbatim>\<open>Model.findOne({name: v})\<close>.\<close>

definition Author_find :: "author list query" where
  "Author_find = (\<lambda>d. (Inr (authors d), d))"

definition Genre_find :: "genre list query" where
  "Genre_find = (\<lambda>d. (Inr (genres d), d))"

definition Book_find :: "book list query" where
  "Book_find = (\<lambda>d. (Inr (books d), d))"

definition BookInstance_find :: "bookinstance list query" where
  "BookInstance_find = (\<lambda>d. (Inr (bookinstances d), d))"

definition Book_find_author :: "jsval \<Rightarrow> book list query" where
  "Book_find_author v = on_id v (\<lambda>i d. (filter (\<lambda>b. holds (author b) i) (books d), d))"

definition Book_find_genre :: "jsval \<Rightarrow> book list query" where
  "Book_find_genre v = on_id v (\<lambda>i d. (filter (\<lambda>b. matches (genre b) i) (books d), d))"

definition BookInstance_find_book :: "jsval \<Rightarrow> bookinstance list query" where
  "BookInstance_find_book v =
     on_id v (\<lambda>i d. (filter (\<lambda>c. holds (book c) i) (bookinstances d), d))"

definition Author_findById :: "jsval \<Rightarrow> author option query" where
  "Author_findById v = on_id v (\<lambda>i d. (findById author_id (authors d) i, d))"

definition Genre_findById :: "jsval \<Rightarrow> genre option query" where
  "Genre_findById v = on_id v (\<lambda>i d. (findById genre_id (genres d) i, d))"

definition Book_findById :: "jsval \<Rightarrow> book option query" where
  "Book_findById v = on_id v (\<lambda>i d. (findById book_id (books d) i, d))"

definition BookInstance_findById :: "jsval \<Rightarrow> bookinstance option query" where
  "BookInstance_findById v = on_id v (\<lambda>i d. (findById bookinstance_id (bookinstances d) i, d))"

text \<open>The name of a genre is a string path: a condition that is a string asks for equality.\<close>

definition Genre_findOne_name :: "jsval \<Rightarrow> genre option query" where
  "Genre_findOne_name v = (\<lambda>d. (Inr (find (\<lambda>g. name g = v) (genres d)), d))"

text \<open>
  \<^verbatim>\<open>populate\<close> and the field selections of \<^verbatim>\<open>find\<close> change what a view sees of a
  document, not which documents a query returns nor their order; they are the identity here.
\<close>

definition populate :: "'a query \<Rightarrow> 'a query" where
  "populate q = q"

text \<open>
  \<^verbatim>\<open>doc.save()\<close> inserts the document; the store refuses a second document with the same
  id.
\<close>

definition save :: "('d \<Rightarrow> oid) \<Rightarrow> 'd list \<Rightarrow> 'd \<Rightarrow> error + 'd list" where
  "save ident coll doc =
     (if ident doc \<in> set (map ident coll) then Inl DuplicateKey else Inr (coll @ [doc]))"

definition Author_save :: "author \<Rightarrow> unit query" where
  "Author_save doc = (\<lambda>d. case save author_id (authors d) doc of
       Inl e \<Rightarrow> (Inl e, d) | Inr c \<Rightarrow> (Inr (), d\<lparr>authors := c\<rparr>))"

definition Genre_save :: "genre \<Rightarrow> unit query" where
  "Genre_save doc = (\<lambda>d. case save genre_id (genres d) doc of
       Inl e \<Rightarrow> (Inl e, d) | Inr c \<Rightarrow> (Inr (), d\<lparr>genres := c\<rparr>))"

definition Book_save :: "book \<Rightarrow> unit query" where
  "Book_save doc = (\<lambda>d. case save book_id (books d) doc of
       Inl e \<Rightarrow> (Inl e, d) | Inr c \<Rightarrow> (Inr (), d\<lparr>books := c\<rparr>))"

definition BookInstance_save :: "bookinstance \<Rightarrow> unit query" where
  "BookInstance_save doc = (\<lambda>d. case save bookinstance_id (bookinstances d) doc of
       Inl e \<Rightarrow> (Inl e, d) | Inr c \<Rightarrow> (Inr (), d\<lparr>bookinstances := c\<rparr>))"

text \<open>
  \<^verbatim>\<open>Model.findByIdAndRemove(v)\<close> removes the document of that id and returns it
  (\<^verbatim>\<open>null\<close> when there is none).
\<close>

definition Author_findByIdAndRemove :: "jsval \<Rightarrow> author option query" where
  "Author_findByIdAndRemove v =
     on_id v (\<lambda>i d. (findById author_id (authors d) i,
                     d\<lparr>authors := removeById author_id (authors d) i\<rparr>))"

definition Genre_findByIdAndRemove :: "jsval \<Rightarrow> genre option query" where
  "Genre_findByIdAndRemove v =
     on_id v (\<lambda>i d. (findById genre_id (genres d) i,
                     d\<lparr>genres := removeById genre_id (genres d) i\<rparr>))"

definition BookInstance_findByIdAndRemove :: "jsval \<Rightarrow> bookinstance option query" where
  "BookInstance_findByIdAndRemove v =
     on_id v (\<lambda>i d. (findById bookinstance_id (bookinstances d) i,
                     d\<lparr>bookinstances := removeById bookinstance_id (bookinstances d) i\<rparr>))"

text \<open>
  \<^verbatim>\<open>Model.findByIdAndUpdate(v, doc, {})\<close> writes the paths that are set in \<open>doc\<close> to the
  stored document of that id (a \<^verbatim>\<open>$set\<close>): a path that is \<^verbatim>\<open>undefined\<close> in \<open>doc\<close>
  keeps its stored value. Every caller gives \<open>doc\<close> the id it asks for, so the id stays.
  The query returns the document as it was before, or \<^verbatim>\<open>null\<close> when there is none,
  and then nothing changes (no upsert).
\<close>

definition set_path :: "jsval \<Rightarrow> jsval \<Rightarrow> jsval" where
  "set_path new old = (if new = Undefined then old else new)"

definition Author_set :: "author \<Rightarrow> author \<Rightarrow> author" where
  "Author_set doc old =
     old\<lparr>first_name := set_path (first_name doc) (first_name old),
         family_name := set_path (family_name doc) (family_name old),
         date_of_birth := set_path (date_of_birth doc) (date_of_birth old),
         date_of_death := set_path (date_of_death doc) (date_of_death old)\<rparr>"

definition Genre_set :: "genre \<Rightarrow> genre \<Rightarrow> genre" where
  "Genre_set doc old = old\<lparr>name := set_path (name doc) (name old)\<rparr>"

definition Book_set :: "book \<Rightarrow> book \<Rightarrow> book" where
  "Book_set doc old =
     old\<lparr>title := set_path (title doc) (title old),
         author := set_path (author doc) (author old),
         summary := set_path (summary doc) (summary old),
         isbn := set_path (isbn doc) (isbn old),
         genre := set_path (genre doc) (genre old)\<rparr>"

definition BookInstance_set :: "bookinstance \<Rightarrow> bookinstance \<Rightarrow> bookinstance" where
  "BookInstance_set doc old =
     old\<lparr>book := set_path (book doc) (book old),
         imprint := set_path (imprint doc) (imprint old),
         status := set_path (status doc) (status old),
         due_back := set_path (due_back doc) (due_back old)\<rparr>"

definition Author_findByIdAndUpdate :: "jsval \<Rightarrow> author \<Rightarrow> author option query" where
  "Author_findByIdAndUpdate v doc =
     on_id v (\<lambda>i d. (findById author_id (authors d) i,
                     d\<lparr>authors := updateById author_id (authors d) i (Author_set doc)\<rparr>))"

definition Genre_findByIdAndUpdate :: "jsval \<Rightarrow> genre \<Rightarrow> genre option query" where
  "Genre_findByIdAndUpdate v doc =
     on_id v (\<lambda>i d. (findById genre_id (genres d) i,
                     d\<lparr>genres := updateById genre_id (genres d) i (Genre_set doc)\<rparr>))"

definition Book_findByIdAndUpdate :: "jsval \<Rightarrow> book \<Rightarrow> book option query" where
  "Book_findByIdAndUpdate v doc =
     on_id v (\<lambda>i d. (findById book_id (books d) i,
                     d\<lparr>books := updateById book_id (books d) i (Book_set doc)\<rparr>))"

definition BookInstance_findByIdAndUpdate :: "jsval \<Rightarrow> bookinstance \<Rightarrow> bookinstance option query" where
  "BookInstance_findByIdAndUpdate v doc =
     on_id v (\<lambda>i d. (findById bookinstance_id (bookinstances d) i,
                     d\<lparr>bookinstances :=
                          updateById bookinstance_id (bookinstances d) i (BookInstance_set doc)\<rparr>))"

subsection \<open>The validation library\<close>

text \<open>
  \<^verbatim>\<open>express-validator\<close> and \<^verbatim>\<open>validator\<close> are dependencies, not part of the
  sources; what the chains below use of them is modelled from their behaviour. A validator
  sees the string form of a field; a sanitizer rewrites string values and leaves every
  other value alone, and the sanitizers of a chain are applied to the field before its
  validators run.
\<close>

text \<open>
  The string a validator sees: of an array with elements the string of its first element,
  and of \<^verbatim>\<open>undefined\<close> and \<^verbatim>\<open>null\<close> the empty string.
\<close>

definition toString_flat :: "jsval \<Rightarrow> string" where
  "toString_flat v = (if v = Undefined \<or> v = Null then [] else js_String v)"

definition toString :: "jsval \<Rightarrow> string" where
  "toString v = (case v of Arr (x # xs) \<Rightarrow> toString_flat x | _ \<Rightarrow> toString_flat v)"

text \<open>
  \<^verbatim>\<open>trim\<close> removes the white space at both ends, every character that a regular
  expression counts as white space: of the code units below 256 these are the space, the
  tab, the line feed, the vertical tab, the form feed, the carriage return and the no-break
  space.
\<close>

definition is_space :: "char \<Rightarrow> bool" where
  "is_space c =
     (c \<in> set [CHR '' '', CHR 0x09, CHR 0x0A, CHR 0x0B, CHR 0x0C, CHR 0x0D, CHR 0xA0])"

definition trim :: "string \<Rightarrow> string" where
  "trim s = rev (dropWhile is_space (rev (dropWhile is_space s)))"

definition escape_char :: "char \<Rightarrow> string" where
  "escape_char c =
     (if c = CHR ''&'' then ''&amp;''
      else if c = CHR 0x22 then ''&quot;''
      else if c = CHR 0x27 then ''&#x27;''
      else if c = CHR ''<'' then ''&lt;''
      else if c = CHR ''>'' then ''&gt;''
      else if c = CHR ''/'' then ''&#x2F;''
      else if c = CHR 0x5C then ''&#x5C;''
      else if c = CHR 0x60 then ''&#96;''
      else [c])"

definition escape :: "string \<Rightarrow> string" where
  "escape s = concat (map escape_char s)"

definition sanitize :: "(string \<Rightarrow> string) \<Rightarrow> jsval \<Rightarrow> jsval" where
  "sanitize f v = (case v of Str s \<Rightarrow> Str (f s) | _ \<Rightarrow> v)"

text \<open>\<^verbatim>\<open>sanitizeBody('fld')\<close>, \<^verbatim>\<open>sanitizeBody('*')\<close> and \<^verbatim>\<open>sanitizeBody('fld.*')\<close>.\<close>

definition sanitizeBody :: "string \<Rightarrow> (string \<Rightarrow> string) \<Rightarrow> request \<Rightarrow> request" where
  "sanitizeBody fld f req =
     req\<lparr>body := map (\<lambda>p. if fst p = fld then (fst p, sanitize f (snd p)) else p) (body req)\<rparr>"

definition sanitizeBody_all :: "(string \<Rightarrow> string) \<Rightarrow> request \<Rightarrow> request" where
  "sanitizeBody_all f req = req\<lparr>body := map (\<lambda>p. (fst p, sanitize f (snd p))) (body req)\<rparr>"

definition sanitizeBody_each :: "string \<Rightarrow> (string \<Rightarrow> string) \<Rightarrow> request \<Rightarrow> request" where
  "sanitizeBody_each fld f req =
     req\<lparr>body := map (\<lambda>p. if fst p = fld
                           then (fst p, case snd p of Arr vs \<Rightarrow> Arr (map (sanitize f) vs) | v \<Rightarrow> v)
                           else p) (body req)\<rparr>"

definition isLength_min :: "nat \<Rightarrow> string \<Rightarrow> bool" where
  "isLength_min n s = (n \<le> length s)"

text \<open>
  \<^verbatim>\<open>body(fld, msg).isLength({ min: 1 }).trim()\<close>: the field is trimmed, and the message is
  recorded for \<^verbatim>\<open>validationResult\<close> when the string form is shorter than one character.
\<close>

definition body_isLength_trim :: "string \<Rightarrow> string \<Rightarrow> request \<Rightarrow> request" where
  "body_isLength_trim fld msg req =
     (let r = sanitizeBody fld trim req
      in r\<lparr>errors := errors r @
               (if isLength_min 1 (toString (field (body r) fld)) then [] else [(fld, msg)])\<rparr>)"

subsection \<open>bookController.js\<close>

text \<open>The genres of the form, each with whether the book holds it (\<^verbatim>\<open>checked = 'true'\<close>).\<close>

definition mark_checked :: "jsval \<Rightarrow> genre list \<Rightarrow> (genre \<times> bool) list" where
  "mark_checked g gs = map (\<lambda>x. (x, list_ex (\<lambda>e. ref_id e = Some (genre_id x)) (elems g))) gs"

definition book_list :: "request \<Rightarrow> db \<Rightarrow> call list \<times> db" where
  "book_list req d0 =
     try_await (populate Book_find) d0 (\<lambda>list_books d1.
       ([Render ''book_list'' [(''title'', VStr ''Book List''), (''book_list'', VBooks list_books)]],
        d1))"

definition book_detail :: "request \<Rightarrow> db \<Rightarrow> call list \<times> db" where
  "book_detail req d0 =
     try_await (populate (populate (Book_findById (Str (params_id req))))) d0 (\<lambda>bk d1.
     try_await (BookInstance_find_book (Str (params_id req))) d1 (\<lambda>book_instance d2.
       if bk = None
       then ([Next (NotFound ''Book not found'')], d2)
       else ([Render ''book_detail''
                [(''title'', VStr ''Title''), (''book'', VBook bk),
                 (''book_instances'', VBookInstances book_instance)]], d2)))"

text \<open>The first middleware of \<^verbatim>\<open>book_create_post\<close> and \<^verbatim>\<open>book_update_post\<close>.\<close>

definition is_Array :: "jsval \<Rightarrow> bool" where
  "is_Array v = (case v of Arr vs \<Rightarrow> True | _ \<Rightarrow> False)"

text \<open>
  \<^verbatim>\<open>new Array(v)\<close>: a number is the length of a new array of empty slots (a slot reads
  as \<^verbatim>\<open>undefined\<close>), and a RangeError when it is no array length; any other value
  becomes the only element.
\<close>

definition new_Array :: "jsval \<Rightarrow> error + jsval" where
  "new_Array v =
     (case v of
        Num n \<Rightarrow> (if 0 \<le> n \<and> n < 2 ^ 32 then Inr (Arr (replicate (nat n) Undefined))
                  else Inl RangeError)
      | _ \<Rightarrow> Inr (Arr [v]))"

definition genre_to_array :: "request \<Rightarrow> error + request" where
  "genre_to_array req =
     (if \<not> is_Array (field (body req) ''genre'')
      then (if field (body req) ''genre'' = Undefined
            then Inr (req\<lparr>body := set_field ''genre'' (Arr []) (body req)\<rparr>)
            else (case new_Array (field (body req) ''genre'') of
                    Inl e \<Rightarrow> Inl e
                  | Inr a \<Rightarrow> Inr (req\<lparr>body := set_field ''genre'' a (body req)\<rparr>)))
      else Inr req)"

text \<open>
  The last function of \<^verbatim>\<open>book_create_post\<close>. \<open>fresh\<close> is the id that \<^verbatim>\<open>new Book\<close>
  gives the document.
\<close>

definition book_create_post_handler :: "oid \<Rightarrow> request \<Rightarrow> db \<Rightarrow> call list \<times> db" where
  "book_create_post_handler fresh req d0 =
     (let bk = \<lparr>book_id = fresh,
                title = field (body req) ''title'',
                author = field (body req) ''author'',
                summary = field (body req) ''summary'',
                isbn = field (body req) ''isbn'',
                genre = field (body req) ''genre''\<rparr>
      in if errors req \<noteq> []
         then try_await Author_find d0 (\<lambda>as d1.
              try_await Genre_find d1 (\<lambda>gs d2.
                ([Render ''book_form''
                    [(''title'', VStr ''Create Book''), (''authors'', VAuthors as),
                     (''genres'', VChecked (mark_checked (genre bk) gs)),
                     (''book'', VBook (Some bk)), (''errors'', VErrors (errors req))]], d2)))
         else try_await (Book_save bk) d0 (\<lambda>u d1.
                ([Redirect (Detail Book (book_id bk))], d1)))"

text \<open>
  The validators and sanitizers of \<^verbatim>\<open>book_create_post\<close>, in the order of the array,
  and the whole array: an exception thrown by a middleware goes to the error handler.
\<close>

definition book_create_post_fields :: "request \<Rightarrow> request" where
  "book_create_post_fields r =
     sanitizeBody_each ''genre'' (escape \<circ> trim)
       (sanitizeBody_all (escape \<circ> trim)
         (body_isLength_trim ''isbn'' ''ISBN must not be empty''
           (body_isLength_trim ''summary'' ''Summary must not be empty.''
             (body_isLength_trim ''author'' ''Author must not be empty.''
               (body_isLength_trim ''title'' ''Title must not be empty.'' r)))))"

definition book_create_post :: "oid \<Rightarrow> request \<Rightarrow> db \<Rightarrow> call list \<times> db" where
  "book_create_post fresh req d0 =
     (case genre_to_array req of
        Inl e \<Rightarrow> ([Next e], d0)
      | Inr r \<Rightarrow> book_create_post_handler fresh (book_create_post_fields r) d0)"

definition book_delete_get :: "request \<Rightarrow> db \<Rightarrow> call list \<times> db" where
  "book_delete_get req d0 =
     try_await (populate (populate (Book_findById (Str (params_id req))))) d0 (\<lambda>bk d1.
     try_await (BookInstance_find_book (Str (params_id req))) d1 (\<lambda>book_bookinstances d2.
       ((if bk = None then [Redirect (Path ''/catalog/books'')] else []) @
        [Render ''book_delete''
           [(''title'', VStr ''Delete Book''), (''book'', VBook bk),
            (''book_instances'', VBookInstances book_bookinstances)]], d2)))"

definition book_delete_post :: "request \<Rightarrow> db \<Rightarrow> call list \<times> db" where
  "book_delete_post req d0 =
     try_await (populate (populate (Book_findById (Str (params_id req))))) d0 (\<lambda>bk d1.
     try_await Author_find d1 (\<lambda>as d2.
     try_await Genre_find d2 (\<lambda>gs d3.
       case bk of
         None \<Rightarrow> ([Next (NotFound ''Book not found'')], d3)
       | Some b \<Rightarrow>
           ([Render ''book_form''
               [(''title'', VStr ''Update Book''), (''authors'', VAuthors as),
                (''genres'', VChecked (mark_checked (genre b) gs)),
                (''book'', VBook (Some b))]], d3))))"

definition book_update_get :: "request \<Rightarrow> db \<Rightarrow> call list \<times> db" where
  "book_update_get req d0 =
     try_await (populate (populate (Book_findById (Str (params_id req))))) d0 (\<lambda>bk d1.
     try_await Author_find d1 (\<lambda>as d2.
     try_await Genre_find d2 (\<lambda>gs d3.
       case bk of
         None \<Rightarrow> ([Next (NotFound ''Book not found'')], d3)
       | Some b \<Rightarrow>
           ([Render ''book_form''
               [(''title'', VStr ''Update Book''), (''authors'', VAuthors as),
                (''genres'', VChecked (mark_checked (genre b) gs)),
                (''book'', VBook (Some b))]], d3))))"

text \<open>
  The last function of \<^verbatim>\<open>book_update_post\<close>. \<^verbatim>\<open>thebook.url\<close> is read from what the
  update returns: a TypeError when that is \<^verbatim>\<open>null\<close>.
\<close>

definition book_update_post_handler :: "request \<Rightarrow> db \<Rightarrow> call list \<times> db" where
  "book_update_post_handler req d0 =
     (let bk = \<lparr>book_id = params_id req,
                title = field (body req) ''title'',
                author = field (body req) ''author'',
                summary = field (body req) ''summary'',
                isbn = field (body req) ''isbn'',
                genre = (if field (body req) ''genre'' = Undefined then Arr []
                         else field (body req) ''genre'')\<rparr>
      in if errors req \<noteq> []
         then try_await Author_find d0 (\<lambda>as d1.
              try_await Genre_find d1 (\<lambda>gs d2.
                ([Render ''book_form''
                    [(''title'', VStr ''Update Book''), (''authors'', VAuthors as),
                     (''genres'', VChecked (mark_checked (genre bk) gs)),
                     (''book'', VBook (Some bk)), (''errors'', VErrors (errors req))]], d2)))
         else try_await (Book_findByIdAndUpdate (Str (params_id req)) bk) d0 (\<lambda>thebook d1.
                case thebook of
                  None \<Rightarrow> ([Next TypeError], d1)
                | Some b \<Rightarrow> ([Redirect (Detail Book (book_id b))], d1)))"

definition book_update_post_fields :: "request \<Rightarrow> request" where
  "book_update_post_fields r =
     sanitizeBody_each ''genre'' (escape \<circ> trim)
       (sanitizeBody ''isbn'' (escape \<circ> trim)
         (sanitizeBody ''summary'' (escape \<circ> trim)
           (sanitizeBody ''author'' (escape \<circ> trim)
             (sanitizeBody ''title'' (escape \<circ> trim)
               (body_isLength_trim ''isbn'' ''ISBN must not be empty''
                 (body_isLength_trim ''summary'' ''Summary must not be empty.''
                   (body_isLength_trim ''author'' ''Author must not be empty.''
                     (body_isLength_trim ''title'' ''Title must not be empty.'' r))))))))"

definition book_update_post :: "request \<Rightarrow> db \<Rightarrow> call list \<times> db" where
  "book_update_post req d0 =
     (case genre_to_array req of
        Inl e \<Rightarrow> ([Next e], d0)
      | Inr r \<Rightarrow> book_update_post_handler (book_update_post_fields r) d0)"

subsection \<open>authorController.js\<close>

text \<open>
  \<^verbatim>\<open>.sort([[path, 'ascending']])\<close>: the documents in ascending order of the path's value.
  The order the database gives to values is not in the sources: \<open>key\<close> maps a value to its
  place in that order.
\<close>

definition sort_ascending ::
  "(jsval \<Rightarrow> 'k::linorder) \<Rightarrow> ('d \<Rightarrow> jsval) \<Rightarrow> 'd list query \<Rightarrow> 'd list query" where
  "sort_ascending key path q =
     (\<lambda>d. case q d of
            (Inl e, d') \<Rightarrow> (Inl e, d')
          | (Inr xs, d') \<Rightarrow> (Inr (sort_key (\<lambda>x. key (path x)) xs), d'))"

definition author_list :: "(jsval \<Rightarrow> 'k::linorder) \<Rightarrow> request \<Rightarrow> db \<Rightarrow> call list \<times> db" where
  "author_list key req d0 =
     try_await (sort_ascending key family_name Author_find) d0 (\<lambda>list_authors d1.
       ([Render ''author_list''
           [(''title'', VStr ''Author List''), (''author_list'', VAuthors list_authors)]], d1))"

definition author_detail :: "request \<Rightarrow> db \<Rightarrow> call list \<times> db" where
  "author_detail req d0 =
     (let author_q = Author_findById (Str (params_id req));
          authors_books_q = Book_find_author (Str (params_id req))
      in try_await author_q d0 (\<lambda>results_author d1.
         try_await authors_books_q d1 (\<lambda>results_authors_books d2.
           if results_author = None
           then ([Next (NotFound ''Author not found'')], d2)
           else ([Render ''author_detail''
                    [(''title'', VStr ''Author Detail''), (''author'', VAuthor results_author),
                     (''author_books'', VBooks results_authors_books)]], d2))))"

text \<open>
  The validation chains of the Author and BookInstance forms use \<^verbatim>\<open>isAlphanumeric\<close>,
  \<^verbatim>\<open>isISO8601\<close> and \<^verbatim>\<open>toDate\<close> of the validation library; they are left out, and the
  last function of each chain takes the request as the chain hands it over.
\<close>

definition author_create_post_handler :: "oid \<Rightarrow> request \<Rightarrow> db \<Rightarrow> call list \<times> db" where
  "author_create_post_handler fresh req d0 =
     (if errors req \<noteq> []
      then ([Render ''author_form''
               [(''title'', VStr ''Create Author''), (''author'', VBody (body req)),
                (''errors'', VErrors (errors req))]], d0)
      else (let doc = \<lparr>author_id = fresh,
                        first_name = field (body req) ''first_name'',
                        family_name = field (body req) ''family_name'',
                        date_of_birth = field (body req) ''date_of_birth'',
                        date_of_death = field (body req) ''date_of_death''\<rparr>
            in try_await (Author_save doc) d0 (\<lambda>u d1.
                 ([Redirect (Detail Author (author_id doc))], d1))))"

definition author_delete_get :: "request \<Rightarrow> db \<Rightarrow> call list \<times> db" where
  "author_delete_get req d0 =
     (let author_q = Author_findById (Str (params_id req));
          authors_books_q = Book_find_author (Str (params_id req))
      in try_await author_q d0 (\<lambda>results_author d1.
         try_await authors_books_q d1 (\<lambda>results_authors_books d2.
           ((if results_author = None then [Redirect (Path ''/catalog/authors'')] else []) @
            [Render ''author_delete''
               [(''title'', VStr ''Delete Author''), (''author'', VAuthor results_author),
                (''author_books'', VBooks results_authors_books)]], d2))))"

definition author_delete_post :: "request \<Rightarrow> db \<Rightarrow> call list \<times> db" where
  "author_delete_post req d0 =
     (let author_q = Author_findById (field (body req) ''authorid'');
          author_books_q = Book_find_author (field (body req) ''authorid'')
      in try_await author_q d0 (\<lambda>results_author d1.
         try_await author_books_q d1 (\<lambda>results_authors_books d2.
           if length results_authors_books > 0
           then ([Render ''author_delete''
                    [(''title'', VStr ''Delete Author''), (''author'', VAuthor results_author),
                     (''authors_books'', VBooks results_authors_books)]], d2)
           else try_await (Author_findByIdAndRemove (field (body req) ''authorid'')) d2
                  (\<lambda>removed d3. ([Redirect (Path ''/catalog/authors'')], d3)))))"

text \<open>
  The last function of \<^verbatim>\<open>author_update_post\<close>. The source writes
  \<^verbatim>\<open>const theauthor = Author.findByIdAndUpdate(req.params.id, author, {});\<close> with no
  \<^verbatim>\<open>await\<close>: \<open>theauthor\<close> is the query itself.
\<close>

definition author_update_post_handler :: "request \<Rightarrow> db \<Rightarrow> call list \<times> db" where
  "author_update_post_handler req d0 =
     (let doc = \<lparr>author_id = params_id req,
                 first_name = field (body req) ''first_name'',
                 family_name = field (body req) ''family_name'',
                 date_of_birth = field (body req) ''date_of_birth'',
                 date_of_death = field (body req) ''date_of_death''\<rparr>
      in if errors req \<noteq> []
         then ([Render ''author_form''
                  [(''title'', VStr ''Update Author''), (''author'', VAuthor (Some doc)),
                   (''errors'', VErrors (errors req))]], d0)
         else (let theauthor = Author_findByIdAndUpdate (Str (params_id req)) doc
               in ([Redirect (query_url theauthor)], d0)))"

subsection \<open>genreController.js\<close>

definition genre_list :: "(jsval \<Rightarrow> 'k::linorder) \<Rightarrow> request \<Rightarrow> db \<Rightarrow> call list \<times> db" where
  "genre_list key req d0 =
     try_await (sort_ascending key name Genre_find) d0 (\<lambda>list_genres d1.
       ([Render ''genre_list''
           [(''title'', VStr ''Genre List''), (''list_genres'', VGenres list_genres)]], d1))"

definition genre_detail :: "request \<Rightarrow> db \<Rightarrow> call list \<times> db" where
  "genre_detail req d0 =
     try_await (Genre_findById (Str (params_id req))) d0 (\<lambda>results_genre d1.
     try_await (Book_find_genre (Str (params_id req))) d1 (\<lambda>results_genre_books d2.
       if results_genre = None
       then ([Next (NotFound ''Genre not found'')], d2)
       else ([Render ''genre_detail''
                [(''title'', VStr ''Genre Detail''), (''genre'', VGenre results_genre),
                 (''genre_books'', VBooks results_genre_books)]], d2)))"

text \<open>
  The last function of \<^verbatim>\<open>genre_create_post\<close>. \<open>fresh\<close> is the id that \<^verbatim>\<open>new Genre\<close>
  gives the document.
\<close>

definition genre_create_post_handler :: "oid \<Rightarrow> request \<Rightarrow> db \<Rightarrow> call list \<times> db" where
  "genre_create_post_handler fresh req d0 =
     (let doc = \<lparr>genre_id = fresh, name = field (body req) ''name''\<rparr>
      in if errors req \<noteq> []
         then ([Render ''genre_form''
                  [(''title'', VStr ''Create Genre''), (''genre'', VGenre (Some doc)),
                   (''errors'', VErrors (errors req))]], d0)
         else try_await (Genre_findOne_name (field (body req) ''name'')) d0 (\<lambda>found d1.
                case found of
                  Some found_genre \<Rightarrow> ([Redirect (Detail Genre (genre_id found_genre))], d1)
                | None \<Rightarrow>
                    try_await (Genre_save doc) d1 (\<lambda>u d2.
                      ([Redirect (Detail Genre (genre_id doc))], d2))))"

definition genre_create_post_fields :: "request \<Rightarrow> request" where
  "genre_create_post_fields r =
     sanitizeBody ''name'' (escape \<circ> trim)
       (body_isLength_trim ''name'' ''Genre name required'' r)"

definition genre_create_post :: "oid \<Rightarrow> request \<Rightarrow> db \<Rightarrow> call list \<times> db" where
  "genre_create_post fresh req d0 =
     genre_create_post_handler fresh (genre_create_post_fields req) d0"

definition genre_delete_get :: "request \<Rightarrow> db \<Rightarrow> call list \<times> db" where
  "genre_delete_get req d0 =
     try_await (Genre_findById (Str (params_id req))) d0 (\<lambda>results_genre d1.
     try_await (Book_find_genre (Str (params_id req))) d1 (\<lambda>results_genre_books d2.
       ((if results_genre = None then [Redirect (Path ''/catalog/genres'')] else []) @
        [Render ''genre_delete''
           [(''title'', VStr ''Delete Genre''), (''genre'', VGenre results_genre),
            (''genre_books'', VBooks results_genre_books)]], d2)))"

text \<open>
  The books are looked up under \<^verbatim>\<open>req.params.id\<close>; the genre removed is
  \<^verbatim>\<open>req.body.id\<close>.
\<close>

definition genre_delete_post :: "request \<Rightarrow> db \<Rightarrow> call list \<times> db" where
  "genre_delete_post req d0 =
     try_await (Genre_findById (Str (params_id req))) d0 (\<lambda>results_genre d1.
     try_await (Book_find_genre (Str (params_id req))) d1 (\<lambda>results_genre_books d2.
       if length results_genre_books > 0
       then ([Render ''genre_delete''
                [(''title'', VStr ''Delete Genre''), (''genre'', VGenre results_genre),
                 (''genre_books'', VBooks results_genre_books)]], d2)
       else try_await (Genre_findByIdAndRemove (field (body req) ''id'')) d2
              (\<lambda>removed d3. ([Redirect (Path ''/catalog/genres'')], d3))))"

definition genre_update_post_handler :: "request \<Rightarrow> db \<Rightarrow> call list \<times> db" where
  "genre_update_post_handler req d0 =
     (let doc = \<lparr>genre_id = params_id req, name = field (body req) ''name''\<rparr>
      in if errors req \<noteq> []
         then ([Render ''genre_form''
                  [(''title'', VStr ''Update Genre''), (''genre'', VGenre (Some doc)),
                   (''errors'', VErrors (errors req))]], d0)
         else try_await (Genre_findByIdAndUpdate (Str (params_id req)) doc) d0 (\<lambda>thegenre d1.
                case thegenre of
                  None \<Rightarrow> ([Next TypeError], d1)
                | Some g \<Rightarrow> ([Redirect (Detail Genre (genre_id g))], d1)))"

definition genre_update_post_fields :: "request \<Rightarrow> request" where
  "genre_update_post_fields r =
     sanitizeBody ''name'' (escape \<circ> trim)
       (body_isLength_trim ''name'' ''Genre name required'' r)"

definition genre_update_post :: "request \<Rightarrow> db \<Rightarrow> call list \<times> db" where
  "genre_update_post req d0 = genre_update_post_handler (genre_update_post_fields req) d0"

subsection \<open>bookinstanceController.js\<close>

definition bookinstance_list :: "request \<Rightarrow> db \<Rightarrow> call list \<times> db" where
  "bookinstance_list req d0 =
     try_await (populate BookInstance_find) d0 (\<lambda>list_bookinstances d1.
       ([Render ''bookinstance_list''
           [(''title'', VStr ''Book Instance List''),
            (''bookinstance_list'', VBookInstances list_bookinstances)]], d1))"

text \<open>
  The source writes
  \<^verbatim>\<open>const bookinstance = BookInstance.findById(req.params.id).populate('book');\<close> with no
  \<^verbatim>\<open>await\<close>: what is compared with \<^verbatim>\<open>null\<close> and given to the view is the query.
\<close>

definition bookinstance_detail :: "request \<Rightarrow> db \<Rightarrow> call list \<times> db" where
  "bookinstance_detail req d0 =
     (let bookinstance_q = populate (BookInstance_findById (Str (params_id req)))
      in if query_is_null bookinstance_q
         then ([Next (NotFound ''Book copy not found'')], d0)
         else ([Render ''bookinstance_detail''
                  [(''title'', VStr ''Book:''), (''bookinstance'', VQuery)]], d0))"

text \<open>
  \<^verbatim>\<open>v._id\<close>: a TypeError on \<^verbatim>\<open>undefined\<close> and \<^verbatim>\<open>null\<close>. A string stands for the id
  it names, which is its own \<^verbatim>\<open>_id\<close>.
\<close>

definition prop_id :: "jsval \<Rightarrow> error + jsval" where
  "prop_id v =
     (case v of
        Undefined \<Rightarrow> Inl TypeError
      | Null \<Rightarrow> Inl TypeError
      | Str s \<Rightarrow> Inr (Str s)
      | Obj ps \<Rightarrow> Inr (field ps ''_id'')
      | _ \<Rightarrow> Inr Undefined)"

definition bookinstance_create_post_handler :: "oid \<Rightarrow> request \<Rightarrow> db \<Rightarrow> call list \<times> db" where
  "bookinstance_create_post_handler fresh req d0 =
     (let doc = \<lparr>bookinstance_id = fresh,
                 book = field (body req) ''book'',
                 imprint = field (body req) ''imprint'',
                 status = field (body req) ''status'',
                 due_back = field (body req) ''due_back''\<rparr>
      in if errors req \<noteq> []
         then try_await Book_find d0 (\<lambda>bs d1.
                case prop_id (book doc) of
                  Inl e \<Rightarrow> ([Next e], d1)
                | Inr selected \<Rightarrow>
                    ([Render ''bookinstance_form''
                        [(''title'', VStr ''Create BookInstance''), (''book_list'', VBooks bs),
                         (''selected_book'', VJs selected), (''errors'', VErrors (errors req)),
                         (''bookinstance'', VBookInstance (Some doc))]], d1))
         else try_await (BookInstance_save doc) d0 (\<lambda>u d1.
                ([Redirect (Detail BookInstance (bookinstance_id doc))], d1)))"

definition bookinstance_delete_get :: "request \<Rightarrow> db \<Rightarrow> call list \<times> db" where
  "bookinstance_delete_get req d0 =
     try_await (populate (BookInstance_findById (Str (params_id req)))) d0 (\<lambda>bi d1.
       ((if bi = None then [Redirect (Path ''/catalog/bookinstances'')] else []) @
        [Render ''bookinstance_delete''
           [(''title'', VStr ''Delete BookInstance''), (''bookinstance'', VBookInstance bi)]], d1))"

definition bookinstance_delete_post :: "request \<Rightarrow> db \<Rightarrow> call list \<times> db" where
  "bookinstance_delete_post req d0 =
     try_await (BookInstance_findByIdAndRemove (field (body req) ''id'')) d0 (\<lambda>removed d1.
       ([Redirect (Path ''/catalog/bookinstances'')], d1))"

definition bookinstance_update_post_handler :: "request \<Rightarrow> db \<Rightarrow> call list \<times> db" where
  "bookinstance_update_post_handler req d0 =
     (let doc = \<lparr>bookinstance_id = params_id req,
                 book = field (body req) ''book'',
                 imprint = field (body req) ''imprint'',
                 status = field (body req) ''status'',
                 due_back = field (body req) ''due_back''\<rparr>
      in if errors req \<noteq> []
         then try_await Book_find d0 (\<lambda>bs d1.
                case prop_id (book doc) of
                  Inl e \<Rightarrow> ([Next e], d1)
                | Inr selected \<Rightarrow>
                    ([Render ''bookinstance_form''
                        [(''title'', VStr ''Update BookInstance''), (''book_list'', VBooks bs),
                         (''selected_book'', VJs selected), (''errors'', VErrors (errors req)),
                         (''bookinstance'', VBookInstance (Some doc))]], d1))
         else try_await (BookInstance_findByIdAndUpdate (Str (params_id req)) doc) d0
                (\<lambda>thebookinstance d1.
                   case thebookinstance of
                     None \<Rightarrow> ([Next TypeError], d1)
                   | Some c \<Rightarrow> ([Redirect (Detail BookInstance (bookinstance_id c))], d1)))"

section \<open>A small library\<close>

abbreviation id_a0 :: oid where "id_a0 \<equiv> ''aaaaaaaaaaaaaaaaaaaaaaa0''"
abbreviation id_a1 :: oid where "id_a1 \<equiv> ''aaaaaaaaaaaaaaaaaaaaaaa1''"
abbreviation id_g1 :: oid where "id_g1 \<equiv> ''eeeeeeeeeeeeeeeeeeeeeee1''"
abbreviation id_g2 :: oid where "id_g2 \<equiv> ''eeeeeeeeeeeeeeeeeeeeeee2''"
abbreviation id_g3 :: oid where "id_g3 \<equiv> ''eeeeeeeeeeeeeeeeeeeeeee3''"
abbreviation id_g4 :: oid where "id_g4 \<equiv> ''eeeeeeeeeeeeeeeeeeeeeee4''"
abbreviation id_b0 :: oid where "id_b0 \<equiv> ''bbbbbbbbbbbbbbbbbbbbbbb0''"
abbreviation id_b1 :: oid where "id_b1 \<equiv> ''bbbbbbbbbbbbbbbbbbbbbbb1''"
abbreviation id_b2 :: oid where "id_b2 \<equiv> ''bbbbbbbbbbbbbbbbbbbbbbb2''"
abbreviation id_i1 :: oid where "id_i1 \<equiv> ''ccccccccccccccccccccccc1''"
abbreviation id_i2 :: oid where "id_i2 \<equiv> ''ccccccccccccccccccccccc2''"
abbreviation id_absent :: oid where "id_absent \<equiv> ''ffffffffffffffffffffffff''"

definition austen :: author where
  "austen = \<lparr>author_id = id_a1, first_name = Str ''Jane'', family_name = Str ''Austen'',
             date_of_birth = Null, date_of_death = Null\<rparr>"

definition fiction :: genre where
  "fiction = \<lparr>genre_id = id_g1, name = Str ''Fiction''\<rparr>"

definition poetry :: genre where
  "poetry = \<lparr>genre_id = id_g2, name = Str ''Poetry''\<rparr>"

definition emma :: book where
  "emma = \<lparr>book_id = id_b1, title = Str ''Emma'', author = Str id_a1,
           summary = Str ''A novel'', isbn = Str ''0141439580'', genre = Arr [Str id_g2]\<rparr>"

definition persuasion :: book where
  "persuasion = \<lparr>book_id = id_b0, title = Str ''Persuasion'', author = Str id_a1,
                 summary = Str ''Another novel'', isbn = Str ''0141439688'', genre = Arr []\<rparr>"

definition copy1 :: bookinstance where
  "copy1 = \<lparr>bookinstance_id = id_i1, book = Str id_b1, imprint = Str ''Penguin'',
            status = Str ''Available'', due_back = Null\<rparr>"

text \<open>
  One author, two genres of which only Poetry has a book, one book and one copy of it.
  Persuasion is a second book, not in the library.
\<close>

definition library :: db where
  "library = \<lparr>authors = [austen], genres = [fiction, poetry], books = [emma],
              bookinstances = [copy1]\<rparr>"

section \<open>Properties\<close>

lemmas example_defs =
  library_def austen_def fiction_def poetry_def emma_def copy1_def

subsection \<open>Ids\<close>

lemma castObjectId_examples:
  "castObjectId id_a0 = Some id_a0" "castObjectId id_b2 = Some id_b2"
  "castObjectId id_a1 = Some id_a1" "castObjectId id_g1 = Some id_g1"
  "castObjectId id_g2 = Some id_g2" "castObjectId id_g3 = Some id_g3"
  "castObjectId id_g4 = Some id_g4"
  "castObjectId id_b0 = Some id_b0" "castObjectId id_b1 = Some id_b1"
  "castObjectId id_i1 = Some id_i1" "castObjectId id_i2 = Some id_i2"
  "castObjectId id_absent = Some id_absent"
  by (simp_all add: castObjectId_def is_hex_def lower_hex_def)

lemma castObjectId_malformed: "castObjectId ''zz'' = None"
  by (simp add: castObjectId_def)

lemma on_id_Str:
  "on_id (Str s) run d =
     (case castObjectId s of
        None \<Rightarrow> (Inl CastError, d)
      | Some i \<Rightarrow> (case run (Some i) d of (x, d') \<Rightarrow> (Inr x, d')))"
  by (simp add: on_id_def query_id_def split: option.split)

lemma on_id_well_formed:
  "castObjectId s = Some i \<Longrightarrow> on_id (Str s) run d = (case run (Some i) d of (x, d') \<Rightarrow> (Inr x, d'))"
  by (simp add: on_id_Str)

lemma on_id_malformed: "castObjectId s = None \<Longrightarrow> on_id (Str s) run d = (Inl CastError, d)"
  by (simp add: on_id_Str)

lemmas run_defs =
  await_def try_await_def populate_def
  Author_find_def Genre_find_def Book_find_def BookInstance_find_def
  Book_find_author_def Book_find_genre_def BookInstance_find_book_def
  Author_findById_def Genre_findById_def Book_findById_def BookInstance_findById_def
  Genre_findOne_name_def

subsection \<open>Deleting a book\<close>

lemma book_delete_post_db: "snd (book_delete_post req d) = d"
  by (simp add: book_delete_post_def run_defs on_id_Str split: option.split)

lemma book_delete_post_is_update_get: "book_delete_post req d = book_update_get req d"
  by (simp add: book_delete_post_def book_update_get_def)

lemma book_delete_post_calls:
  "fst (book_delete_post req d) = [Next CastError] \<or>
   fst (book_delete_post req d) = [Next (NotFound ''Book not found'')] \<or>
   (\<exists>ls. fst (book_delete_post req d) = [Render ''book_form'' ls])"
  by (simp add: book_delete_post_def run_defs on_id_Str split: option.split)

text \<open>
  The sibling handlers of the other models do remove the document they are asked to remove.
\<close>

lemma bookinstance_delete_post_removes:
  "field (body req) ''id'' = Str s \<Longrightarrow> castObjectId s = Some i \<Longrightarrow>
   findById bookinstance_id (bookinstances (snd (bookinstance_delete_post req d))) (Some i) = None"
  by (simp add: bookinstance_delete_post_def BookInstance_findByIdAndRemove_def run_defs
      on_id_well_formed findById_def removeById_def find_None_iff)

text \<open>
  C1. The claim: a Book delete-POST for an existing Book verifies that it has no
  BookInstances, removes the Book and redirects, and the Book is gone afterwards. The code
  of \<^verbatim>\<open>book_delete_post\<close> is the code of \<^verbatim>\<open>book_update_get\<close>: for the book
  \<open>emma\<close>, which has no copy in this store, it renders the update form and leaves the
  book in the store.
\<close>

theorem book_delete_post_keeps_the_book:
  "book_delete_post \<lparr>params_id = id_b1, body = [(''id'', Str id_b1)], errors = []\<rparr>
     (library\<lparr>bookinstances := []\<rparr>)
   = ([Render ''book_form''
         [(''title'', VStr ''Update Book''), (''authors'', VAuthors [austen]),
          (''genres'', VChecked [(fiction, False), (poetry, True)]),
          (''book'', VBook (Some emma))]],
      library\<lparr>bookinstances := []\<rparr>)
   \<and> findById book_id (books (library\<lparr>bookinstances := []\<rparr>)) (Some id_b1) = Some emma"
  by (simp add: book_delete_post_def run_defs on_id_Str castObjectId_examples findById_def
      mark_checked_def elems_def ref_id_def example_defs)

subsection \<open>Detail pages of absent documents\<close>

lemma book_detail_404:
  "castObjectId (params_id req) = Some i \<Longrightarrow> findById book_id (books d) (Some i) = None \<Longrightarrow>
   book_detail req d = ([Next (NotFound ''Book not found'')], d)"
  by (simp add: book_detail_def run_defs on_id_well_formed)

lemma author_detail_404:
  "castObjectId (params_id req) = Some i \<Longrightarrow> findById author_id (authors d) (Some i) = None \<Longrightarrow>
   author_detail req d = ([Next (NotFound ''Author not found'')], d)"
  by (simp add: author_detail_def run_defs on_id_well_formed)

lemma genre_detail_404:
  "castObjectId (params_id req) = Some i \<Longrightarrow> findById genre_id (genres d) (Some i) = None \<Longrightarrow>
   genre_detail req d = ([Next (NotFound ''Genre not found'')], d)"
  by (simp add: genre_detail_def run_defs on_id_well_formed)

lemma NotFound_status: "error_status (NotFound msg) = 404"
  by simp

text \<open>An id that is no ObjectId is not answered with a 404 but with the cast's error.\<close>

lemma detail_malformed_id:
  assumes "castObjectId (params_id req) = None"
  shows "book_detail req d = ([Next CastError], d)"
    and "author_detail req d = ([Next CastError], d)"
    and "genre_detail req d = ([Next CastError], d)"
  using assms
  by (simp_all add: book_detail_def author_detail_def genre_detail_def run_defs on_id_malformed)

lemma CastError_status: "error_status CastError = 500"
  by simp

lemma bookinstance_detail_renders:
  "bookinstance_detail req d =
     ([Render ''bookinstance_detail'' [(''title'', VStr ''Book:''), (''bookinstance'', VQuery)]], d)"
  by (simp add: bookinstance_detail_def query_is_null_def)

text \<open>
  C2. The claim: the detail operation on an id with no stored entity yields a 404, for
  every entity. It holds for Book, Author and Genre at every well-formed id (the three
  lemmas above). In \<^verbatim>\<open>bookinstance_detail\<close> the query is not awaited, so the test
  against \<^verbatim>\<open>null\<close> never succeeds: for a well-formed id that names no copy, the handler
  renders the detail view and passes no error on.
\<close>

theorem bookinstance_detail_no_404:
  "castObjectId id_absent = Some id_absent
   \<and> findById bookinstance_id (bookinstances library) (Some id_absent) = None
   \<and> bookinstance_detail \<lparr>params_id = id_absent, body = [], errors = []\<rparr> library
     = ([Render ''bookinstance_detail'' [(''title'', VStr ''Book:''), (''bookinstance'', VQuery)]],
        library)"
  by (simp add: bookinstance_detail_def query_is_null_def findById_def castObjectId_examples
      example_defs)

subsection \<open>Requests that fail validation\<close>

lemma field_set_field: "field (set_field k v obj) k' = (if k' = k then v else field obj k')"
  by (induction obj) (auto simp: field_def)

lemma field_map_at:
  "g Undefined = Undefined \<Longrightarrow>
   field (map (\<lambda>p. if fst p = k then (fst p, g (snd p)) else p) obj) k' =
     (if k' = k then g (field obj k) else field obj k')"
  by (induction obj) (auto simp: field_def)

lemma field_map_all:
  "g Undefined = Undefined \<Longrightarrow> field (map (\<lambda>p. (fst p, g (snd p))) obj) k = g (field obj k)"
  by (induction obj) (auto simp: field_def)

lemma sanitize_Undefined: "sanitize f Undefined = Undefined"
  by (simp add: sanitize_def)

lemma field_sanitizeBody:
  "field (body (sanitizeBody k f req)) k' =
     (if k' = k then sanitize f (field (body req) k) else field (body req) k')"
  by (simp add: sanitizeBody_def field_map_at sanitize_Undefined)

lemma errors_sanitizeBody: "errors (sanitizeBody k f req) = errors req"
  by (simp add: sanitizeBody_def)

lemma errors_sanitizeBody_all: "errors (sanitizeBody_all f req) = errors req"
  by (simp add: sanitizeBody_all_def)

lemma errors_sanitizeBody_each: "errors (sanitizeBody_each k f req) = errors req"
  by (simp add: sanitizeBody_each_def)

lemma errors_body_isLength_trim:
  "errors (body_isLength_trim k msg req) =
     errors req @
     (if isLength_min 1 (toString (sanitize trim (field (body req) k))) then [] else [(k, msg)])"
  by (simp add: body_isLength_trim_def Let_def field_sanitizeBody errors_sanitizeBody)

lemma field_body_isLength_trim:
  "field (body (body_isLength_trim k msg req)) k' =
     (if k' = k then sanitize trim (field (body req) k) else field (body req) k')"
  by (simp add: body_isLength_trim_def Let_def field_sanitizeBody)

lemma empty_fails_isLength:
  "v = Undefined \<or> v = Null \<or> v = Str [] \<Longrightarrow> isLength_min 1 (toString (sanitize trim v)) = False"
  by (auto simp: isLength_min_def toString_def toString_flat_def sanitize_def trim_def)

lemma genre_to_array_cases:
  "genre_to_array req = Inl RangeError \<or>
   (\<exists>a. genre_to_array req = Inr (req\<lparr>body := set_field ''genre'' (Arr a) (body req)\<rparr>)) \<or>
   genre_to_array req = Inr req"
  by (auto simp: genre_to_array_def new_Array_def split: jsval.splits)

text \<open>
  When \<^verbatim>\<open>validationResult\<close> is not empty, no handler saves or updates: the store is
  what it was.
\<close>

lemma invalid_create_no_persistence:
  "errors req \<noteq> [] \<Longrightarrow>
   snd (book_create_post_handler fresh req d) = d \<and>
   snd (author_create_post_handler fresh req d) = d \<and>
   snd (genre_create_post_handler fresh req d) = d \<and>
   snd (bookinstance_create_post_handler fresh req d) = d"
  by (simp add: book_create_post_handler_def author_create_post_handler_def
      genre_create_post_handler_def bookinstance_create_post_handler_def run_defs
      split: sum.split)

lemma invalid_update_no_persistence:
  "errors req \<noteq> [] \<Longrightarrow>
   snd (book_update_post_handler req d) = d \<and>
   snd (author_update_post_handler req d) = d \<and>
   snd (genre_update_post_handler req d) = d \<and>
   snd (bookinstance_update_post_handler req d) = d"
  by (simp add: book_update_post_handler_def author_update_post_handler_def
      genre_update_post_handler_def bookinstance_update_post_handler_def run_defs
      split: sum.split)

text \<open>The forms of Book, Author and Genre are rendered again with the messages.\<close>

lemma invalid_book_rerenders:
  "errors req \<noteq> [] \<Longrightarrow>
   (\<exists>ls. fst (book_create_post_handler fresh req d) =
           [Render ''book_form'' (ls @ [(''errors'', VErrors (errors req))])]) \<and>
   (\<exists>ls. fst (book_update_post_handler req d) =
           [Render ''book_form'' (ls @ [(''errors'', VErrors (errors req))])])"
  by (simp add: book_create_post_handler_def book_update_post_handler_def run_defs)

lemma invalid_author_rerenders:
  "errors req \<noteq> [] \<Longrightarrow>
   (\<exists>ls. fst (author_create_post_handler fresh req d) =
           [Render ''author_form'' (ls @ [(''errors'', VErrors (errors req))])]) \<and>
   (\<exists>ls. fst (author_update_post_handler req d) =
           [Render ''author_form'' (ls @ [(''errors'', VErrors (errors req))])])"
  by (simp add: author_create_post_handler_def author_update_post_handler_def)

lemma invalid_genre_rerenders:
  "errors req \<noteq> [] \<Longrightarrow>
   (\<exists>ls. fst (genre_create_post_handler fresh req d) =
           [Render ''genre_form'' (ls @ [(''errors'', VErrors (errors req))])]) \<and>
   (\<exists>ls. fst (genre_update_post_handler req d) =
           [Render ''genre_form'' (ls @ [(''errors'', VErrors (errors req))])])"
  by (simp add: genre_create_post_handler_def genre_update_post_handler_def)

text \<open>
  The BookInstance form is rendered again only when \<^verbatim>\<open>bookinstance.book._id\<close> can be
  read.
\<close>

lemma invalid_bookinstance_rerenders:
  "errors req \<noteq> [] \<Longrightarrow> prop_id (field (body req) ''book'') = Inr sel \<Longrightarrow>
   (\<exists>ls. fst (bookinstance_create_post_handler fresh req d) = [Render ''bookinstance_form'' ls]) \<and>
   (\<exists>ls. fst (bookinstance_update_post_handler req d) = [Render ''bookinstance_form'' ls])"
  by (simp add: bookinstance_create_post_handler_def bookinstance_update_post_handler_def
      run_defs)

lemma genre_to_array_Inl: "genre_to_array req = Inl e \<Longrightarrow> e = RangeError"
  by (auto simp: genre_to_array_def new_Array_def split: jsval.splits if_splits)

lemma genre_to_array_Inr:
  "genre_to_array req = Inr r \<Longrightarrow>
   errors r = errors req \<and> params_id r = params_id req \<and>
   (\<forall>k. k \<noteq> ''genre'' \<longrightarrow> field (body r) k = field (body req) k)"
  using genre_to_array_cases [of req] by (auto simp: field_set_field)

lemma genre_to_array_is_Array:
  "genre_to_array req = Inr r \<Longrightarrow> is_Array (field (body r) ''genre'')"
  by (auto simp: genre_to_array_def new_Array_def is_Array_def field_set_field
      split: if_splits jsval.splits)

lemma field_sanitizeBody_all:
  "field (body (sanitizeBody_all f req)) k = sanitize f (field (body req) k)"
  by (simp add: sanitizeBody_all_def field_map_all sanitize_Undefined)

lemma field_sanitizeBody_each:
  "field (body (sanitizeBody_each k f req)) k' =
     (if k' = k
      then (case field (body req) k of Arr vs \<Rightarrow> Arr (map (sanitize f) vs) | v \<Rightarrow> v)
      else field (body req) k')"
  by (simp add: sanitizeBody_each_def field_map_at)

lemma error_kept:
  "e \<in> set (errors req) \<Longrightarrow> e \<in> set (errors (body_isLength_trim k msg req))"
  by (simp add: errors_body_isLength_trim)

lemma book_create_post_handler_rejects:
  assumes "e \<in> set (errors r)"
  shows "snd (book_create_post_handler fresh r d) = d \<and>
         (\<exists>ls. fst (book_create_post_handler fresh r d) =
                 [Render ''book_form'' (ls @ [(''errors'', VErrors (errors r))])])"
proof -
  from assms have "errors r \<noteq> []" by auto
  then show ?thesis
    using invalid_create_no_persistence [of r fresh d] invalid_book_rerenders [of r fresh d]
    by blast
qed

text \<open>
  A book whose title is empty or absent goes through the whole chain of
  \<^verbatim>\<open>book_create_post\<close> without reaching the store: the form comes back with the title's
  message (or the genre field was a number that is no array length).
\<close>

lemma book_create_post_empty_title:
  assumes "field (body req) ''title'' = Undefined \<or> field (body req) ''title'' = Str []"
  shows "snd (book_create_post fresh req d) = d \<and>
         (fst (book_create_post fresh req d) = [Next RangeError] \<or>
          (\<exists>ls es. fst (book_create_post fresh req d) =
                     [Render ''book_form'' (ls @ [(''errors'', VErrors es)])] \<and>
                   (''title'', ''Title must not be empty.'') \<in> set es))"
proof (cases "genre_to_array req")
  case (Inl e)
  then show ?thesis
    using genre_to_array_Inl [OF Inl] by (simp add: book_create_post_def)
next
  case (Inr r)
  define s where "s = book_create_post_fields r"
  have "field (body r) ''title'' = field (body req) ''title''"
    using genre_to_array_Inr [OF Inr] by simp
  with assms have "isLength_min 1 (toString (sanitize trim (field (body r) ''title''))) = False"
    by (intro empty_fails_isLength) auto
  then have "(''title'', ''Title must not be empty.'')
      \<in> set (errors (body_isLength_trim ''title'' ''Title must not be empty.'' r))"
    by (simp add: errors_body_isLength_trim)
  then have mem: "(''title'', ''Title must not be empty.'') \<in> set (errors s)"
    unfolding s_def book_create_post_fields_def errors_sanitizeBody_all errors_sanitizeBody_each
    by (blast intro: error_kept)
  have run: "book_create_post fresh req d = book_create_post_handler fresh s d"
    by (simp add: book_create_post_def Inr s_def)
  show ?thesis
    using book_create_post_handler_rejects [OF mem, of fresh d] mem unfolding run by blast
qed

text \<open>
  C3. The claim: whenever validation fails on a create-POST or update-POST, of any entity,
  the handler renders the form again with the messages and saves nothing. Nothing is saved
  (\<open>invalid_create_no_persistence\<close>, \<open>invalid_update_no_persistence\<close>), and a book with
  an empty title is rejected (\<open>book_create_post_empty_title\<close>). The BookInstance handlers
  read \<^verbatim>\<open>bookinstance.book._id\<close> for the form: a request without a \<^verbatim>\<open>book\<close> field
  fails the validator of that field, and then the handler passes a TypeError to
  \<^verbatim>\<open>next\<close> and renders nothing.
\<close>

theorem bookinstance_create_post_invalid_no_form:
  "errors (body_isLength_trim ''book'' ''Book must be specified''
            \<lparr>params_id = [], body = [(''imprint'', Str ''Penguin'')], errors = []\<rparr>)
     = [(''book'', ''Book must be specified'')]
   \<and> bookinstance_create_post_handler id_i2
       \<lparr>params_id = [], body = [(''imprint'', Str ''Penguin'')],
        errors = [(''book'', ''Book must be specified'')]\<rparr> library
     = ([Next TypeError], library)
   \<and> error_status TypeError = 500"
  by (simp add: errors_body_isLength_trim bookinstance_create_post_handler_def prop_id_def
      field_def isLength_min_def toString_def toString_flat_def sanitize_def run_defs)


subsection \<open>Deleting a genre\<close>

lemma genre_delete_post_blocked:
  "castObjectId (params_id req) = Some i \<Longrightarrow>
   filter (\<lambda>b. matches (genre b) (Some i)) (books d) \<noteq> [] \<Longrightarrow>
   genre_delete_post req d =
     ([Render ''genre_delete''
         [(''title'', VStr ''Delete Genre''),
          (''genre'', VGenre (findById genre_id (genres d) (Some i))),
          (''genre_books'', VBooks (filter (\<lambda>b. matches (genre b) (Some i)) (books d)))]],
      d)"
  by (simp add: genre_delete_post_def run_defs on_id_well_formed)

lemma genre_delete_post_changes_genres_only:
  "authors (snd (genre_delete_post req d)) = authors d \<and>
   books (snd (genre_delete_post req d)) = books d \<and>
   bookinstances (snd (genre_delete_post req d)) = bookinstances d"
  by (simp add: genre_delete_post_def run_defs on_id_Str on_id_def Genre_findByIdAndRemove_def
      split: option.split sum.split)

text \<open>When the form's \<^verbatim>\<open>id\<close> is the id of the URL, a genre goes only if no book holds it.\<close>

lemma genre_delete_post_same_id:
  "field (body req) ''id'' = Str (params_id req) \<Longrightarrow>
   genres (snd (genre_delete_post req d)) \<noteq> genres d \<Longrightarrow>
   filter (\<lambda>b. matches (genre b) (castObjectId (params_id req))) (books d) = []"
  by (simp add: genre_delete_post_def run_defs on_id_Str split: if_splits option.splits)

text \<open>\<^verbatim>\<open>author_delete_post\<close> checks and removes under one and the same id.\<close>

lemma author_delete_post_checked:
  "authors (snd (author_delete_post req d)) \<noteq> authors d \<Longrightarrow>
   \<exists>i. query_id (field (body req) ''authorid'') = Inr i \<and>
       filter (\<lambda>b. holds (author b) i) (books d) = []"
  by (simp add: author_delete_post_def run_defs on_id_def split: if_splits sum.splits)

text \<open>
  C4. The claim: a Genre delete-POST is rejected when a Book references the Genre, and the
  Genre is removed only when no Book references it. The handler looks for the books of
  \<^verbatim>\<open>req.params.id\<close> and removes \<^verbatim>\<open>req.body.id\<close>. Posted to the URL of Fiction, which
  no book holds, with Poetry's id in the body, it removes Poetry, the genre of \<open>emma\<close>.
\<close>

theorem genre_delete_post_removes_referenced_genre:
  "filter (\<lambda>b. matches (genre b) (Some id_g2)) (books library) = [emma]
   \<and> genre_delete_post \<lparr>params_id = id_g1, body = [(''id'', Str id_g2)], errors = []\<rparr> library
     = ([Redirect (Path ''/catalog/genres'')], library\<lparr>genres := [fiction]\<rparr>)"
  by (simp add: genre_delete_post_def run_defs on_id_Str castObjectId_examples
      Genre_findByIdAndRemove_def findById_def removeById_def matches_def holds_def ref_id_def
      elems_def field_def example_defs)

subsection \<open>Updating\<close>

lemma findById_Some_ident: "findById ident coll (Some i) = Some x \<Longrightarrow> ident x = i \<and> x \<in> set coll"
  by (auto simp: findById_def find_Some_iff)

lemma findById_replace:
  "findById ident coll (Some i) = Some old \<Longrightarrow> ident doc = i \<Longrightarrow>
   findById ident (map (\<lambda>x. if ident x = i then doc else x) coll) (Some i) = Some doc"
  by (induction coll) (auto simp: findById_def)

text \<open>
  A document all of whose paths are set replaces the paths of the stored one, which keeps
  its id.
\<close>

lemma Book_set_defined:
  "title doc \<noteq> Undefined \<Longrightarrow> author doc \<noteq> Undefined \<Longrightarrow> summary doc \<noteq> Undefined \<Longrightarrow>
   isbn doc \<noteq> Undefined \<Longrightarrow> genre doc \<noteq> Undefined \<Longrightarrow>
   Book_set doc old =
     \<lparr>book_id = book_id old, title = title doc, author = author doc, summary = summary doc,
      isbn = isbn doc, genre = genre doc\<rparr>"
  by (simp add: Book_set_def set_path_def)

lemma Genre_set_defined:
  "name doc \<noteq> Undefined \<Longrightarrow> Genre_set doc old = \<lparr>genre_id = genre_id old, name = name doc\<rparr>"
  by (simp add: Genre_set_def set_path_def)

lemma author_update_post_handler_db: "snd (author_update_post_handler req d) = d"
  by (simp add: author_update_post_handler_def Let_def)

lemma author_update_post_handler_valid:
  "errors req = [] \<Longrightarrow> author_update_post_handler req d = ([Redirect NoUrl], d)"
  by (simp add: author_update_post_handler_def query_url_def)

text \<open>The update handler of Genre awaits its query, and the stored genre is overwritten.\<close>

lemma genre_update_post_handler_valid:
  assumes "errors req = []" and "castObjectId (params_id req) = Some i"
    and "findById genre_id (genres d) (Some i) = Some old"
    and "field (body req) ''name'' \<noteq> Undefined"
  shows "genre_update_post_handler req d =
           ([Redirect (Detail Genre i)],
            d\<lparr>genres := map (\<lambda>g. if genre_id g = i
                                  then \<lparr>genre_id = i, name = field (body req) ''name''\<rparr>
                                  else g) (genres d)\<rparr>)"
proof -
  have "map (\<lambda>g. if genre_id g = i
                  then Genre_set \<lparr>genre_id = params_id req, name = field (body req) ''name''\<rparr> g
                  else g) (genres d)
      = map (\<lambda>g. if genre_id g = i
                  then \<lparr>genre_id = i, name = field (body req) ''name''\<rparr>
                  else g) (genres d)"
    using assms(4) by (intro map_cong) (auto simp: Genre_set_defined)
  then show ?thesis
    using assms(1,2,3) findById_Some_ident [OF assms(3)]
    by (simp add: genre_update_post_handler_def Genre_findByIdAndUpdate_def await_def
        try_await_def on_id_well_formed updateById_def)
qed

text \<open>
  C5. The claim: an Author update-POST with an existing id and valid fields overwrites the
  stored Author with the submitted values and redirects to the Author's detail page. The
  handler never awaits \<^verbatim>\<open>Author.findByIdAndUpdate\<close>: the update is not run, and the
  \<^verbatim>\<open>url\<close> it redirects to is read from the query object. Renaming Jane Austen to Joan
  leaves Jane in the store.
\<close>

theorem author_update_post_updates_nothing:
  "author_update_post_handler
     \<lparr>params_id = id_a1,
      body = [(''first_name'', Str ''Joan''), (''family_name'', Str ''Austen'')],
      errors = []\<rparr> library
     = ([Redirect NoUrl], library)
   \<and> findById author_id (authors library) (Some id_a1) = Some austen
   \<and> first_name austen = Str ''Jane''"
  by (simp add: author_update_post_handler_def query_url_def findById_def example_defs)

subsection \<open>Sanitised strings and ids\<close>

lemma dropWhile_strip_right:
  "xs = [] \<or> \<not> P (hd xs) \<Longrightarrow> dropWhile P (rev (dropWhile P (rev xs))) = rev (dropWhile P (rev xs))"
  by (cases xs) (auto simp: dropWhile_append dropWhile_eq_Nil_conv)

lemma dropWhile_head: "dropWhile P xs = [] \<or> \<not> P (hd (dropWhile P xs))"
  using hd_dropWhile [of P xs] by blast

text \<open>Trimming twice, as the chains do, is trimming once.\<close>

lemma trim_idem: "trim (trim s) = trim s"
  unfolding trim_def
  using dropWhile_strip_right [of "dropWhile is_space s" is_space] dropWhile_head [of is_space s]
  by (simp add: dropWhile_idem)

lemma toString_Str: "toString (Str s) = s"
  by (simp add: toString_def toString_flat_def)

lemma sanitize_Str: "sanitize f (Str s) = Str (f s)"
  by (simp add: sanitize_def)

lemma valid_trimmed: "isLength_min 1 (toString (sanitize trim (Str s))) = (trim s \<noteq> [])"
  by (cases "trim s") (simp_all add: sanitize_Str toString_Str isLength_min_def)

lemma sanitized_twice:
  "sanitize (escape \<circ> trim) (sanitize trim (Str s)) = Str (escape (trim s))"
  by (simp add: sanitize_Str trim_idem)

text \<open>An id in its canonical writing has no character that \<^verbatim>\<open>escape\<close> replaces.\<close>

lemma escape_hex: "list_all is_hex s \<Longrightarrow> escape s = s"
  by (induction s) (auto simp: escape_def escape_char_def is_hex_def)

lemma length_concat_hex: "length (concat (map hex_of_char s)) = 2 * length s"
  by (induction s) (simp_all add: hex_of_char_def)

lemma castObjectId_canonical:
  assumes "castObjectId s = Some s"
  shows "length s = 24" and "list_all is_hex s" and "escape s = s"
proof -
  have "length s \<noteq> 12"
  proof
    assume l: "length s = 12"
    with assms have "concat (map hex_of_char s) = s" by (simp add: castObjectId_def)
    then have "length (concat (map hex_of_char s)) = length s" by simp
    with l show False by (simp add: length_concat_hex)
  qed
  with assms show "length s = 24" and h: "list_all is_hex s"
    by (auto simp: castObjectId_def split: if_splits)
  from h show "escape s = s" by (rule escape_hex)
qed

lemma castObjectId_Some_nonempty: "castObjectId s = Some i \<Longrightarrow> s \<noteq> []"
  by (auto simp: castObjectId_def split: if_splits)

subsection \<open>Updating a book\<close>

lemma book_update_post_handler_valid:
  assumes "errors req = []"
    and "castObjectId (params_id req) = Some i"
    and "findById book_id (books d) (Some i) = Some old"
    and "field (body req) ''title'' \<noteq> Undefined" and "field (body req) ''author'' \<noteq> Undefined"
    and "field (body req) ''summary'' \<noteq> Undefined" and "field (body req) ''isbn'' \<noteq> Undefined"
  shows "book_update_post_handler req d =
      ([Redirect (Detail Book i)],
       d\<lparr>books :=
            map (\<lambda>b. if book_id b = i
                      then \<lparr>book_id = i,
                            title = field (body req) ''title'',
                            author = field (body req) ''author'',
                            summary = field (body req) ''summary'',
                            isbn = field (body req) ''isbn'',
                            genre = (if field (body req) ''genre'' = Undefined then Arr []
                                     else field (body req) ''genre'')\<rparr>
                      else b)
              (books d)\<rparr>)"
proof -
  define doc where "doc = \<lparr>book_id = params_id req,
              title = field (body req) ''title'',
              author = field (body req) ''author'',
              summary = field (body req) ''summary'',
              isbn = field (body req) ''isbn'',
              genre = (if field (body req) ''genre'' = Undefined then Arr []
                       else field (body req) ''genre'')\<rparr>"
  have set_doc: "book_id b = i \<Longrightarrow> Book_set doc b = doc\<lparr>book_id := i\<rparr>" for b
    using assms(4-7) by (simp add: Book_set_defined doc_def)
  have upd: "updateById book_id (books d) (Some i) (Book_set doc) =
      map (\<lambda>b. if book_id b = i then doc\<lparr>book_id := i\<rparr> else b) (books d)"
    unfolding updateById_def by (simp add: set_doc cong: map_cong)
  have id_old: "book_id old = i"
    using findById_Some_ident [OF assms(3)] by simp
  have "book_update_post_handler req d =
      ([Redirect (Detail Book i)],
       d\<lparr>books := updateById book_id (books d) (Some i) (Book_set doc)\<rparr>)"
    unfolding book_update_post_handler_def doc_def [symmetric] Let_def
    using assms(1,2,3) id_old
    by (simp add: Book_findByIdAndUpdate_def await_def try_await_def on_id_well_formed)
  then have "book_update_post_handler req d =
      ([Redirect (Detail Book i)],
       d\<lparr>books := map (\<lambda>b. if book_id b = i then doc\<lparr>book_id := i\<rparr> else b) (books d)\<rparr>)"
    by (simp only: upd)
  then show ?thesis
    unfolding doc_def by simp
qed

lemma params_id_book_update_post_fields: "params_id (book_update_post_fields r) = params_id r"
  by (simp add: book_update_post_fields_def sanitizeBody_each_def sanitizeBody_def
      body_isLength_trim_def Let_def)

lemma errors_book_update_post_fields:
  "errors (book_update_post_fields r) =
     errors r
     @ (if isLength_min 1 (toString (sanitize trim (field (body r) ''title''))) then []
        else [(''title'', ''Title must not be empty.'')])
     @ (if isLength_min 1 (toString (sanitize trim (field (body r) ''author''))) then []
        else [(''author'', ''Author must not be empty.'')])
     @ (if isLength_min 1 (toString (sanitize trim (field (body r) ''summary''))) then []
        else [(''summary'', ''Summary must not be empty.'')])
     @ (if isLength_min 1 (toString (sanitize trim (field (body r) ''isbn''))) then []
        else [(''isbn'', ''ISBN must not be empty'')])"
  by (simp add: book_update_post_fields_def errors_sanitizeBody errors_sanitizeBody_each
      errors_body_isLength_trim field_body_isLength_trim)

text \<open>What the last function reads of a field the chain has trimmed and escaped.\<close>

lemma field_book_update_post_fields:
  "k \<in> {''title'', ''author'', ''summary'', ''isbn''} \<Longrightarrow>
   field (body (book_update_post_fields r)) k =
     sanitize (escape \<circ> trim) (sanitize trim (field (body r) k))"
  by (auto simp: book_update_post_fields_def field_sanitizeBody field_sanitizeBody_each
      field_body_isLength_trim)

lemma genre_book_update_post_fields:
  "field (body (book_update_post_fields r)) ''genre'' =
     (case field (body r) ''genre'' of
        Arr vs \<Rightarrow> Arr (map (sanitize (escape \<circ> trim)) vs) | v \<Rightarrow> v)"
  by (simp add: book_update_post_fields_def field_sanitizeBody field_sanitizeBody_each
      field_body_isLength_trim)

text \<open>
  The first middleware on a genre field that is absent, one string or an array of strings:
  the field becomes the array of the strings, and nothing else changes.
\<close>

lemma genre_to_array_strings:
  assumes "field (body req) ''genre'' = Undefined \<and> gs = [] \<or>
           field (body req) ''genre'' = Str g \<and> gs = [g] \<or>
           field (body req) ''genre'' = Arr (map Str gs)"
  shows "\<exists>r. genre_to_array req = Inr r \<and> errors r = errors req \<and> params_id r = params_id req \<and>
             field (body r) ''genre'' = Arr (map Str gs) \<and>
             field (body r) ''title'' = field (body req) ''title'' \<and>
             field (body r) ''author'' = field (body req) ''author'' \<and>
             field (body r) ''summary'' = field (body req) ''summary'' \<and>
             field (body r) ''isbn'' = field (body req) ''isbn''"
  using assms
  by (auto simp: genre_to_array_def new_Array_def is_Array_def field_set_field)

text \<open>
  C6, as claimed: a Book update-POST with valid fields on an existing Book keeps the id and
  overwrites title, author, summary, isbn and genre with the submitted values. The chain
  of \<^verbatim>\<open>book_update_post\<close> trims and escapes what was submitted before the last
  function builds the document: the title \<open>'' Emma & Co ''\<close> is stored as
  \<open>''Emma &amp; Co''\<close>, and the genre \<open>id_g1\<close>, one string, as a list.
\<close>

theorem book_update_post_stores_sanitized_title:
  "book_update_post
     \<lparr>params_id = id_b1,
      body = [(''title'', Str '' Emma & Co ''), (''author'', Str id_a1),
              (''summary'', Str ''Revised''), (''isbn'', Str ''0141439580''),
              (''genre'', Str id_g1)],
      errors = []\<rparr> library
     = ([Redirect (Detail Book id_b1)],
        library\<lparr>books := [\<lparr>book_id = id_b1, title = Str ''Emma &amp; Co'', author = Str id_a1,
                              summary = Str ''Revised'', isbn = Str ''0141439580'',
                              genre = Arr [Str id_g1]\<rparr>]\<rparr>)
   \<and> Str ''Emma &amp; Co'' \<noteq> Str '' Emma & Co ''"
  by (simp add: book_update_post_def genre_to_array_def new_Array_def is_Array_def
      book_update_post_fields_def body_isLength_trim_def sanitizeBody_def sanitizeBody_each_def
      sanitize_def toString_def toString_flat_def isLength_min_def trim_def is_space_def
      escape_def escape_char_def field_def book_update_post_handler_def
      Book_findByIdAndUpdate_def run_defs on_id_Str castObjectId_examples findById_def
      updateById_def Book_set_def set_path_def example_defs Let_def)

text \<open>
  C6, amended. Take a Book update-POST on an existing Book (the id of the URL is an
  ObjectId that a stored Book has) whose title, author, summary and isbn are strings that
  are not empty once trimmed, whose author and genres, trimmed, are ids in the canonical
  writing, and whose genre field is absent, one string or an array of strings. It redirects
  to the Book's detail page and changes the store in one place: the Book of that id keeps
  its id, and its title, author, summary and isbn become the submitted strings, trimmed
  and escaped, its genre the list of the submitted genres, trimmed and escaped (the empty
  list when the field is absent). That document is what the id finds afterwards, and the
  ids in the collection are what they were. A genre field that is a number is left out.
\<close>

theorem book_update_post_overwrites_sanitized:
  assumes "errors req = []"
    and "castObjectId (params_id req) = Some i"
    and "findById book_id (books d) (Some i) = Some old"
    and "field (body req) ''title'' = Str t" and "trim t \<noteq> []"
    and "field (body req) ''author'' = Str a" and "castObjectId (trim a) = Some (trim a)"
    and "field (body req) ''summary'' = Str s" and "trim s \<noteq> []"
    and "field (body req) ''isbn'' = Str n" and "trim n \<noteq> []"
    and "field (body req) ''genre'' = Undefined \<and> gs = [] \<or>
         field (body req) ''genre'' = Str g \<and> gs = [g] \<or>
         field (body req) ''genre'' = Arr (map Str gs)"
    and "list_all (\<lambda>x. castObjectId (trim x) = Some (trim x)) gs"
  shows "book_update_post req d =
      ([Redirect (Detail Book i)],
       d\<lparr>books :=
            map (\<lambda>b. if book_id b = i
                      then \<lparr>book_id = i,
                            title = Str (escape (trim t)),
                            author = Str (escape (trim a)),
                            summary = Str (escape (trim s)),
                            isbn = Str (escape (trim n)),
                            genre = Arr (map (\<lambda>x. Str (escape (trim x))) gs)\<rparr>
                      else b)
              (books d)\<rparr>)
    \<and> findById book_id (books (snd (book_update_post req d))) (Some i) =
        Some \<lparr>book_id = i,
              title = Str (escape (trim t)),
              author = Str (escape (trim a)),
              summary = Str (escape (trim s)),
              isbn = Str (escape (trim n)),
              genre = Arr (map (\<lambda>x. Str (escape (trim x))) gs)\<rparr>
    \<and> map book_id (books (snd (book_update_post req d))) = map book_id (books d)"
proof -
  define doc where "doc = \<lparr>book_id = i,
              title = Str (escape (trim t)), author = Str (escape (trim a)),
              summary = Str (escape (trim s)), isbn = Str (escape (trim n)),
              genre = Arr (map (\<lambda>x. Str (escape (trim x))) gs)\<rparr>"
  from genre_to_array_strings [OF assms(12)]
  obtain r where r: "genre_to_array req = Inr r" "errors r = errors req"
    "params_id r = params_id req" "field (body r) ''genre'' = Arr (map Str gs)"
    "field (body r) ''title'' = field (body req) ''title''"
    "field (body r) ''author'' = field (body req) ''author''"
    "field (body r) ''summary'' = field (body req) ''summary''"
    "field (body r) ''isbn'' = field (body req) ''isbn''"
    by blast
  define q where "q = book_update_post_fields r"
  have raw: "field (body r) ''title'' = Str t" "field (body r) ''author'' = Str a"
    "field (body r) ''summary'' = Str s" "field (body r) ''isbn'' = Str n"
    using r(5-8) assms(4,6,8,10) by simp_all
  have author_ok: "trim a \<noteq> []"
    using castObjectId_Some_nonempty [OF assms(7)] .
  have e: "errors q = []"
    unfolding q_def errors_book_update_post_fields raw valid_trimmed
    using assms(1,5,9,11) author_ok r(2) by simp
  have vals: "field (body q) ''title'' = Str (escape (trim t))"
    "field (body q) ''author'' = Str (escape (trim a))"
    "field (body q) ''summary'' = Str (escape (trim s))"
    "field (body q) ''isbn'' = Str (escape (trim n))"
    unfolding q_def by (simp_all add: field_book_update_post_fields raw sanitized_twice)
  have gen: "field (body q) ''genre'' = Arr (map (\<lambda>x. Str (escape (trim x))) gs)"
    unfolding q_def by (simp add: genre_book_update_post_fields r(4) sanitize_Str comp_def)
  have id_q: "castObjectId (params_id q) = Some i"
    using assms(2) r(3) by (simp add: q_def params_id_book_update_post_fields)
  have defined: "field (body q) ''title'' \<noteq> Undefined" "field (body q) ''author'' \<noteq> Undefined"
    "field (body q) ''summary'' \<noteq> Undefined" "field (body q) ''isbn'' \<noteq> Undefined"
    by (simp_all add: vals)
  have run: "book_update_post req d =
      ([Redirect (Detail Book i)],
       d\<lparr>books := map (\<lambda>b. if book_id b = i then doc else b) (books d)\<rparr>)"
    using book_update_post_handler_valid [OF e id_q assms(3) defined]
    by (simp add: book_update_post_def r(1) q_def [symmetric] vals gen doc_def)
  have f: "findById book_id (map (\<lambda>b. if book_id b = i then doc else b) (books d)) (Some i)
      = Some doc"
    using findById_replace [OF assms(3), of doc] by (simp add: doc_def)
  have m: "map book_id (map (\<lambda>b. if book_id b = i then doc else b) (books d))
      = map book_id (books d)"
    by (simp add: doc_def)
  show ?thesis
    unfolding run doc_def [symmetric] using f m by simp
qed

theorem book_update_post_overwrites_sanitized_witness:
  "castObjectId id_b1 = Some id_b1
   \<and> findById book_id (books library) (Some id_b1) = Some emma
   \<and> trim '' Emma & Co '' \<noteq> [] \<and> castObjectId (trim id_a1) = Some (trim id_a1)
   \<and> trim ''Revised'' \<noteq> [] \<and> trim ''0141439580'' \<noteq> []
   \<and> list_all (\<lambda>x. castObjectId (trim x) = Some (trim x)) [id_g1, id_g2]
   \<and> book_update_post
       \<lparr>params_id = id_b1,
        body = [(''title'', Str '' Emma & Co ''), (''author'', Str id_a1),
                (''summary'', Str ''Revised''), (''isbn'', Str ''0141439580''),
                (''genre'', Arr [Str id_g1, Str id_g2])],
        errors = []\<rparr> library
     = ([Redirect (Detail Book id_b1)],
        library\<lparr>books := [\<lparr>book_id = id_b1, title = Str ''Emma &amp; Co'', author = Str id_a1,
                              summary = Str ''Revised'', isbn = Str ''0141439580'',
                              genre = Arr [Str id_g1, Str id_g2]\<rparr>]\<rparr>)"
proof -
  define req where "req = \<lparr>params_id = id_b1,
      body = [(''title'', Str '' Emma & Co ''), (''author'', Str id_a1),
              (''summary'', Str ''Revised''), (''isbn'', Str ''0141439580''),
              (''genre'', Arr [Str id_g1, Str id_g2])],
      errors = []\<rparr>"
  have raw: "errors req = []" "castObjectId (params_id req) = Some id_b1"
    "field (body req) ''title'' = Str '' Emma & Co ''" "field (body req) ''author'' = Str id_a1"
    "field (body req) ''summary'' = Str ''Revised''"
    "field (body req) ''isbn'' = Str ''0141439580''"
    by (simp_all add: req_def field_def castObjectId_examples)
  have gen: "field (body req) ''genre'' = Undefined \<and> [id_g1, id_g2] = [] \<or>
      field (body req) ''genre'' = Str [] \<and> [id_g1, id_g2] = [[]] \<or>
      field (body req) ''genre'' = Arr (map Str [id_g1, id_g2])"
    by (simp add: req_def field_def)
  have trims: "trim '' Emma & Co '' = ''Emma & Co''" "trim id_a1 = id_a1"
    "trim ''Revised'' = ''Revised''" "trim ''0141439580'' = ''0141439580''"
    "trim id_g1 = id_g1" "trim id_g2 = id_g2"
    by (simp_all add: trim_def is_space_def)
  have escapes: "escape ''Emma & Co'' = ''Emma &amp; Co''" "escape id_a1 = id_a1"
    "escape ''Revised'' = ''Revised''" "escape ''0141439580'' = ''0141439580''"
    "escape id_g1 = id_g1" "escape id_g2 = id_g2"
    by (simp_all add: escape_def escape_char_def)
  have f: "findById book_id (books library) (Some id_b1) = Some emma"
    by (simp add: findById_def example_defs)
  have h: "trim '' Emma & Co '' \<noteq> []" "castObjectId (trim id_a1) = Some (trim id_a1)"
    "trim ''Revised'' \<noteq> []" "trim ''0141439580'' \<noteq> []"
    "list_all (\<lambda>x. castObjectId (trim x) = Some (trim x)) [id_g1, id_g2]"
    by (simp_all add: trims castObjectId_examples)
  have "book_update_post req library =
      ([Redirect (Detail Book id_b1)],
       library\<lparr>books := [\<lparr>book_id = id_b1, title = Str ''Emma &amp; Co'', author = Str id_a1,
                              summary = Str ''Revised'', isbn = Str ''0141439580'',
                              genre = Arr [Str id_g1, Str id_g2]\<rparr>]\<rparr>)"
    using book_update_post_overwrites_sanitized
      [OF raw(1) raw(2) f raw(3) h(1) raw(4) h(2) raw(5) h(3) raw(6) h(4) gen h(5)]
    by (simp add: trims escapes example_defs)
  then show ?thesis
    using f h raw(2) unfolding req_def by (simp add: castObjectId_examples)
qed

subsection \<open>Lists\<close>

lemma author_list_run:
  "author_list key req d =
     ([Render ''author_list''
         [(''title'', VStr ''Author List''),
          (''author_list'', VAuthors (sort_key (\<lambda>a. key (family_name a)) (authors d)))]], d)"
  by (simp add: author_list_def sort_ascending_def run_defs)

lemma genre_list_run:
  "genre_list key req d =
     ([Render ''genre_list''
         [(''title'', VStr ''Genre List''),
          (''list_genres'', VGenres (sort_key (\<lambda>g. key (name g)) (genres d)))]], d)"
  by (simp add: genre_list_def sort_ascending_def run_defs)

lemma book_list_run:
  "book_list req d =
     ([Render ''book_list'' [(''title'', VStr ''Book List''), (''book_list'', VBooks (books d))]], d)"
  by (simp add: book_list_def run_defs)

lemma bookinstance_list_run:
  "bookinstance_list req d =
     ([Render ''bookinstance_list''
         [(''title'', VStr ''Book Instance List''),
          (''bookinstance_list'', VBookInstances (bookinstances d))]], d)"
  by (simp add: bookinstance_list_def run_defs)

text \<open>
  C7, as claimed: every list operation returns the stored entities in a sorted order, Books
  and BookInstances like Authors and Genres. \<^verbatim>\<open>book_list\<close> has no \<^verbatim>\<open>sort\<close>: a store
  that holds Persuasion before Emma lists them in that order, which is not the order of
  their titles.
\<close>

theorem book_list_not_sorted:
  "book_list \<lparr>params_id = [], body = [], errors = []\<rparr> (library\<lparr>books := [persuasion, emma]\<rparr>)
     = ([Render ''book_list''
           [(''title'', VStr ''Book List''), (''book_list'', VBooks [persuasion, emma])]],
        library\<lparr>books := [persuasion, emma]\<rparr>)
   \<and> \<not> sorted (map (toString \<circ> title) [persuasion, emma])"
  by (simp add: book_list_def run_defs toString_def toString_flat_def example_defs persuasion_def)

text \<open>
  C7, amended. Every list operation reads all stored entities of its type and changes
  nothing. The Authors come sorted by family name and the Genres by name, ascending in the
  database's order of values; the Books and the BookInstances come in storage order.
\<close>

theorem list_operations:
  "(\<exists>as. author_list key req d =
           ([Render ''author_list''
               [(''title'', VStr ''Author List''), (''author_list'', VAuthors as)]], d)
         \<and> sorted (map (\<lambda>a. key (family_name a)) as) \<and> mset as = mset (authors d))
   \<and> (\<exists>gs. genre_list key req d =
           ([Render ''genre_list''
               [(''title'', VStr ''Genre List''), (''list_genres'', VGenres gs)]], d)
         \<and> sorted (map (\<lambda>g. key (name g)) gs) \<and> mset gs = mset (genres d))
   \<and> book_list req d =
       ([Render ''book_list'' [(''title'', VStr ''Book List''), (''book_list'', VBooks (books d))]],
        d)
   \<and> bookinstance_list req d =
       ([Render ''bookinstance_list''
           [(''title'', VStr ''Book Instance List''),
            (''bookinstance_list'', VBookInstances (bookinstances d))]], d)"
proof (intro conjI)
  show "\<exists>as. author_list key req d =
           ([Render ''author_list''
               [(''title'', VStr ''Author List''), (''author_list'', VAuthors as)]], d)
         \<and> sorted (map (\<lambda>a. key (family_name a)) as) \<and> mset as = mset (authors d)"
    by (rule exI [of _ "sort_key (\<lambda>a. key (family_name a)) (authors d)"])
      (simp add: author_list_run)
  show "\<exists>gs. genre_list key req d =
           ([Render ''genre_list''
               [(''title'', VStr ''Genre List''), (''list_genres'', VGenres gs)]], d)
         \<and> sorted (map (\<lambda>g. key (name g)) gs) \<and> mset gs = mset (genres d)"
    by (rule exI [of _ "sort_key (\<lambda>g. key (name g)) (genres d)"])
      (simp add: genre_list_run)
  show "book_list req d =
       ([Render ''book_list'' [(''title'', VStr ''Book List''), (''book_list'', VBooks (books d))]],
        d)"
    by (rule book_list_run)
  show "bookinstance_list req d =
       ([Render ''bookinstance_list''
           [(''title'', VStr ''Book Instance List''),
            (''bookinstance_list'', VBookInstances (bookinstances d))]], d)"
    by (rule bookinstance_list_run)
qed

text \<open>With strings ordered as lists of characters, Zola's entry comes after Austen's.\<close>

lemma author_list_example:
  "author_list toString \<lparr>params_id = [], body = [], errors = []\<rparr>
     (library\<lparr>authors := [austen\<lparr>author_id := id_a0, first_name := Str ''Emile'',
                                   family_name := Str ''Zola''\<rparr>, austen]\<rparr>)
   = ([Render ''author_list''
         [(''title'', VStr ''Author List''),
          (''author_list'',
           VAuthors [austen, austen\<lparr>author_id := id_a0, first_name := Str ''Emile'',
                                     family_name := Str ''Zola''\<rparr>])]],
      library\<lparr>authors := [austen\<lparr>author_id := id_a0, first_name := Str ''Emile'',
                                    family_name := Str ''Zola''\<rparr>, austen]\<rparr>)"
  by (simp add: author_list_run toString_def toString_flat_def example_defs)

subsection \<open>Creating a genre\<close>

lemma find_filter_Nil: "find P xs = None \<longleftrightarrow> filter P xs = []"
  by (induction xs) auto

lemma find_SomeD: "find P xs = Some x \<Longrightarrow> x \<in> set xs \<and> P x"
  by (induction xs) (auto split: if_splits)

lemma genre_create_post_handler_found:
  "errors req = [] \<Longrightarrow> find (\<lambda>g. name g = field (body req) ''name'') (genres d) = Some g \<Longrightarrow>
   genre_create_post_handler fresh req d = ([Redirect (Detail Genre (genre_id g))], d)"
  by (simp add: genre_create_post_handler_def run_defs)

lemma genre_create_post_handler_new:
  "errors req = [] \<Longrightarrow> find (\<lambda>g. name g = field (body req) ''name'') (genres d) = None \<Longrightarrow>
   fresh \<notin> set (map genre_id (genres d)) \<Longrightarrow>
   genre_create_post_handler fresh req d =
     ([Redirect (Detail Genre fresh)],
      d\<lparr>genres := genres d @ [\<lparr>genre_id = fresh, name = field (body req) ''name''\<rparr>]\<rparr>)"
  by (simp add: genre_create_post_handler_def run_defs Genre_save_def save_def)

lemma genre_create_post_handler_twice:
  assumes "errors req = []"
    and "length (filter (\<lambda>g. name g = field (body req) ''name'') (genres d)) \<le> 1"
    and "fresh \<notin> set (map genre_id (genres d))"
  shows "length (filter (\<lambda>g. name g = field (body req) ''name'')
                  (genres (snd (genre_create_post_handler fresh' req
                                  (snd (genre_create_post_handler fresh req d)))))) = 1
       \<and> snd (genre_create_post_handler fresh' req (snd (genre_create_post_handler fresh req d)))
           = snd (genre_create_post_handler fresh req d)"
proof -
  let ?P = "\<lambda>g. name g = field (body req) ''name''"
  let ?d1 = "snd (genre_create_post_handler fresh req d)"
  have one: "length (filter ?P (genres ?d1)) = 1 \<and> find ?P (genres ?d1) \<noteq> None"
  proof (cases "find ?P (genres d)")
    case None
    then have "filter ?P (genres d) = []"
      by (simp add: find_filter_Nil)
    then show ?thesis
      using genre_create_post_handler_new [OF assms(1) None assms(3)]
      by (simp add: find_filter_Nil)
  next
    case (Some g')
    then have "filter ?P (genres d) \<noteq> []"
      using find_filter_Nil [of ?P "genres d"] by simp
    then have "length (filter ?P (genres d)) = 1"
      using assms(2) by (cases "filter ?P (genres d)") auto
    then show ?thesis
      using genre_create_post_handler_found [OF assms(1) Some, of fresh] Some by simp
  qed
  then obtain g1 where g1: "find ?P (genres ?d1) = Some g1"
    by auto
  have same: "snd (genre_create_post_handler fresh' req ?d1) = ?d1"
    using genre_create_post_handler_found [OF assms(1) g1, of fresh'] by simp
  show ?thesis
    using one same by simp
qed

text \<open>The name the last function compares is the submitted one, trimmed and escaped.\<close>

lemma name_genre_create_post_fields:
  "field (body (genre_create_post_fields req)) ''name'' =
     sanitize (escape \<circ> trim) (sanitize trim (field (body req) ''name''))"
  by (simp add: genre_create_post_fields_def field_sanitizeBody field_body_isLength_trim)

lemma errors_genre_create_post_fields:
  "errors (genre_create_post_fields req) =
     errors req
     @ (if isLength_min 1 (toString (sanitize trim (field (body req) ''name''))) then []
        else [(''name'', ''Genre name required'')])"
  by (simp add: genre_create_post_fields_def errors_sanitizeBody errors_body_isLength_trim)

text \<open>A name of white space only is not valid, also when the white space is no-break spaces.\<close>

lemma genre_create_post_blank_name:
  "genre_create_post fresh \<lparr>params_id = [], body = [(''name'', Str [CHR 0xA0])], errors = []\<rparr> d
     = ([Render ''genre_form''
           [(''title'', VStr ''Create Genre''),
            (''genre'', VGenre (Some \<lparr>genre_id = fresh, name = Str []\<rparr>)),
            (''errors'', VErrors [(''name'', ''Genre name required'')])]], d)"
  by (simp add: genre_create_post_def genre_create_post_fields_def body_isLength_trim_def
      sanitizeBody_def sanitize_def toString_def toString_flat_def isLength_min_def trim_def
      is_space_def escape_def field_def genre_create_post_handler_def Let_def)

text \<open>
  C8, as claimed: a Genre create-POST with a valid name equal to the name of an
  already-stored Genre persists no new Genre and redirects to the existing one. The name
  that \<^verbatim>\<open>genre_create_post\<close> looks up and stores is the submitted name trimmed and
  escaped. A store holds the genre named \<open>R&amp;B\<close> (what a creation of \<open>R&B\<close>
  leaves); submitting that very name looks up \<open>R&amp;amp;B\<close>, finds nothing and saves
  a second genre.
\<close>

theorem genre_create_post_stored_name_again:
  "name \<lparr>genre_id = id_g1, name = Str ''R&amp;B''\<rparr> = Str ''R&amp;B''
   \<and> genre_create_post id_g3 \<lparr>params_id = [], body = [(''name'', Str ''R&amp;B'')], errors = []\<rparr>
       (library\<lparr>genres := [\<lparr>genre_id = id_g1, name = Str ''R&amp;B''\<rparr>]\<rparr>)
     = ([Redirect (Detail Genre id_g3)],
        library\<lparr>genres := [\<lparr>genre_id = id_g1, name = Str ''R&amp;B''\<rparr>,
                            \<lparr>genre_id = id_g3, name = Str ''R&amp;amp;B''\<rparr>]\<rparr>)"
  by (simp add: genre_create_post_def genre_create_post_fields_def body_isLength_trim_def
      sanitizeBody_def sanitize_def toString_def toString_flat_def isLength_min_def trim_def
      is_space_def escape_def escape_char_def field_def genre_create_post_handler_def Let_def
      run_defs Genre_save_def save_def example_defs)

text \<open>
  C8, amended. Take a Genre create-POST whose name is a string that is not empty once
  trimmed. If a stored Genre has the submitted name, trimmed and escaped, as its name,
  nothing is saved and the response redirects to the detail page of a stored Genre of that
  name. Hence, when the store holds at most one Genre of that name and the new id is not in
  use, creating the same submitted name twice leaves exactly one Genre whose name is the
  submitted name trimmed and escaped, and the second creation changes nothing.
\<close>

theorem genre_create_post_idempotent_sanitized:
  assumes "errors req = []" and "field (body req) ''name'' = Str s" and "trim s \<noteq> []"
  shows "(g \<in> set (genres d) \<and> name g = Str (escape (trim s)) \<longrightarrow>
            (\<exists>g'. g' \<in> set (genres d) \<and> name g' = Str (escape (trim s)) \<and>
                  genre_create_post fresh req d = ([Redirect (Detail Genre (genre_id g'))], d)))
    \<and> (length (filter (\<lambda>g. name g = Str (escape (trim s))) (genres d)) \<le> 1 \<and>
        fresh \<notin> set (map genre_id (genres d)) \<longrightarrow>
          length (filter (\<lambda>g. name g = Str (escape (trim s)))
                    (genres (snd (genre_create_post fresh' req
                                    (snd (genre_create_post fresh req d)))))) = 1
          \<and> snd (genre_create_post fresh' req (snd (genre_create_post fresh req d)))
              = snd (genre_create_post fresh req d))"
proof (intro conjI impI)
  let ?s = "genre_create_post_fields req"
  let ?P = "\<lambda>g. name g = Str (escape (trim s))"
  have nm: "field (body ?s) ''name'' = Str (escape (trim s))"
    by (simp add: name_genre_create_post_fields assms(2) sanitized_twice)
  have e: "errors ?s = []"
    unfolding errors_genre_create_post_fields assms(2) valid_trimmed using assms(1,3) by simp
  {
    assume "g \<in> set (genres d) \<and> name g = Str (escape (trim s))"
    then have "filter ?P (genres d) \<noteq> []"
      by (auto simp: filter_empty_conv)
    then obtain g' where "find ?P (genres d) = Some g'"
      using find_filter_Nil [of ?P "genres d"] by (cases "find ?P (genres d)") auto
    then have g': "find (\<lambda>g. name g = field (body ?s) ''name'') (genres d) = Some g'"
      by (simp add: nm)
    from find_SomeD [OF g'] genre_create_post_handler_found [OF e g', of fresh]
    show "\<exists>g'. g' \<in> set (genres d) \<and> name g' = Str (escape (trim s)) \<and>
            genre_create_post fresh req d = ([Redirect (Detail Genre (genre_id g'))], d)"
      unfolding genre_create_post_def nm by blast
  }
  {
    assume a: "length (filter ?P (genres d)) \<le> 1 \<and> fresh \<notin> set (map genre_id (genres d))"
    from a have a1: "length (filter (\<lambda>g. name g = field (body ?s) ''name'') (genres d)) \<le> 1"
      and a2: "fresh \<notin> set (map genre_id (genres d))"
      by (simp_all add: nm)
    from genre_create_post_handler_twice [OF e a1 a2, of fresh']
    have t: "length (filter ?P
            (genres (snd (genre_create_post fresh' req (snd (genre_create_post fresh req d)))))) = 1
        \<and> snd (genre_create_post fresh' req (snd (genre_create_post fresh req d)))
            = snd (genre_create_post fresh req d)"
      unfolding genre_create_post_def nm .
    show "length (filter ?P
            (genres (snd (genre_create_post fresh' req (snd (genre_create_post fresh req d)))))) = 1"
      using t by (rule conjunct1)
    show "snd (genre_create_post fresh' req (snd (genre_create_post fresh req d)))
            = snd (genre_create_post fresh req d)"
      using t by (rule conjunct2)
  }
qed

theorem genre_create_post_idempotent_sanitized_witness:
  "trim '' Poetry '' \<noteq> []
   \<and> poetry \<in> set (genres library) \<and> name poetry = Str (escape (trim '' Poetry ''))
   \<and> genre_create_post id_g3
       \<lparr>params_id = [], body = [(''name'', Str '' Poetry '')], errors = []\<rparr> library
     = ([Redirect (Detail Genre id_g2)], library)
   \<and> trim ''R&B'' \<noteq> []
   \<and> length (filter (\<lambda>g. name g = Str (escape (trim ''R&B''))) (genres library)) \<le> 1
   \<and> id_g3 \<notin> set (map genre_id (genres library))
   \<and> genres (snd (genre_create_post id_g4
                    \<lparr>params_id = [], body = [(''name'', Str ''R&B'')], errors = []\<rparr>
                    (snd (genre_create_post id_g3
                            \<lparr>params_id = [], body = [(''name'', Str ''R&B'')], errors = []\<rparr>
                            library))))
     = [fiction, poetry, \<lparr>genre_id = id_g3, name = Str ''R&amp;B''\<rparr>]
   \<and> length (filter (\<lambda>g. name g = Str ''R&amp;B'')
        (genres (snd (genre_create_post id_g4
                    \<lparr>params_id = [], body = [(''name'', Str ''R&B'')], errors = []\<rparr>
                    (snd (genre_create_post id_g3
                            \<lparr>params_id = [], body = [(''name'', Str ''R&B'')], errors = []\<rparr>
                            library)))))) = 1"
proof -
  define p where "p = \<lparr>params_id = [], body = [(''name'', Str '' Poetry '')], errors = []\<rparr>"
  define q where "q = \<lparr>params_id = [], body = [(''name'', Str ''R&B'')], errors = []\<rparr>"
  have trims: "trim '' Poetry '' = ''Poetry''" "trim ''R&B'' = ''R&B''"
    by (simp_all add: trim_def is_space_def)
  have escapes: "escape ''Poetry'' = ''Poetry''" "escape ''R&B'' = ''R&amp;B''"
    by (simp_all add: escape_def escape_char_def)
  have raw: "field (body p) ''name'' = Str '' Poetry ''" "field (body q) ''name'' = Str ''R&B''"
    "errors p = []" "errors q = []"
    by (simp_all add: p_def q_def field_def)
  have ne: "trim '' Poetry '' \<noteq> []" "trim ''R&B'' \<noteq> []"
    by (simp_all add: trims)
  have hp: "poetry \<in> set (genres library) \<and> name poetry = Str ''Poetry''"
    by (simp add: example_defs)
  have hq: "length (filter (\<lambda>g. name g = Str ''R&amp;B'') (genres library)) \<le> 1 \<and>
        id_g3 \<notin> set (map genre_id (genres library))"
    by (simp add: example_defs)
  from genre_create_post_idempotent_sanitized [OF raw(3) raw(1) ne(1), of poetry library id_g3 id_g4]
  have "poetry \<in> set (genres library) \<and> name poetry = Str ''Poetry'' \<longrightarrow>
      (\<exists>g'. g' \<in> set (genres library) \<and> name g' = Str ''Poetry'' \<and>
            genre_create_post id_g3 p library = ([Redirect (Detail Genre (genre_id g'))], library))"
    unfolding trims escapes by (rule conjunct1)
  with hp obtain g' where g': "g' \<in> set (genres library)" "name g' = Str ''Poetry''"
    "genre_create_post id_g3 p library = ([Redirect (Detail Genre (genre_id g'))], library)"
    by blast
  from g'(1,2) have "genre_id g' = id_g2"
    by (auto simp: example_defs)
  with g'(3) have existing:
    "genre_create_post id_g3 p library = ([Redirect (Detail Genre id_g2)], library)"
    by simp
  from genre_create_post_idempotent_sanitized [OF raw(4) raw(2) ne(2), of poetry library id_g3 id_g4]
  have "length (filter (\<lambda>g. name g = Str ''R&amp;B'') (genres library)) \<le> 1 \<and>
        id_g3 \<notin> set (map genre_id (genres library)) \<longrightarrow>
      length (filter (\<lambda>g. name g = Str ''R&amp;B'')
        (genres (snd (genre_create_post id_g4 q (snd (genre_create_post id_g3 q library)))))) = 1
      \<and> snd (genre_create_post id_g4 q (snd (genre_create_post id_g3 q library)))
          = snd (genre_create_post id_g3 q library)"
    unfolding trims escapes by (rule conjunct2)
  with hq have twice: "length (filter (\<lambda>g. name g = Str ''R&amp;B'')
        (genres (snd (genre_create_post id_g4 q (snd (genre_create_post id_g3 q library)))))) = 1
      \<and> snd (genre_create_post id_g4 q (snd (genre_create_post id_g3 q library)))
          = snd (genre_create_post id_g3 q library)"
    by blast
  have fq: "field (body (genre_create_post_fields q)) ''name'' = Str ''R&amp;B''"
    by (simp add: name_genre_create_post_fields raw sanitized_twice trims escapes)
  have eq': "errors (genre_create_post_fields q) = []"
    unfolding errors_genre_create_post_fields raw valid_trimmed by (simp add: trims)
  have none: "find (\<lambda>g. name g = field (body (genre_create_post_fields q)) ''name'') (genres library) = None"
    unfolding fq by (simp add: example_defs)
  have first: "genre_create_post id_g3 q library =
      ([Redirect (Detail Genre id_g3)],
       library\<lparr>genres := genres library @ [\<lparr>genre_id = id_g3, name = Str ''R&amp;B''\<rparr>]\<rparr>)"
    using genre_create_post_handler_new [OF eq' none, of id_g3] hq
    unfolding genre_create_post_def fq by simp
  have final: "genres (snd (genre_create_post id_g4 q (snd (genre_create_post id_g3 q library))))
      = [fiction, poetry, \<lparr>genre_id = id_g3, name = Str ''R&amp;B''\<rparr>]"
    using twice first by (simp add: library_def)
  show ?thesis
    using ne hp existing hq final twice unfolding p_def q_def trims escapes by blast
qed

subsection \<open>Delete pages of absent documents\<close>

text \<open>
  C9, as claimed: a delete-GET whose id has no matching stored entity redirects to the list
  page and then still renders the delete view. The id \<open>zz\<close> matches no stored book, but
  it is no ObjectId: the query fails in its cast, and the handler's \<^verbatim>\<open>catch\<close> passes
  the error to \<^verbatim>\<open>next\<close> (the error page, status 500), with no redirect and no render.
\<close>

theorem book_delete_get_malformed_id:
  "''zz'' \<notin> set (map book_id (books library))
   \<and> book_delete_get \<lparr>params_id = ''zz'', body = [], errors = []\<rparr> library
     = ([Next CastError], library)
   \<and> error_status CastError = 500"
  by (simp add: book_delete_get_def run_defs on_id_Str castObjectId_malformed example_defs)

text \<open>
  C9, amended. A delete-GET whose id is a well-formed ObjectId that names no stored
  document calls \<^verbatim>\<open>res.redirect\<close> with the list page of the model and, with no
  \<^verbatim>\<open>return\<close> after it, goes on to call \<^verbatim>\<open>res.render\<close> with the delete view (the
  document it passes is \<^verbatim>\<open>null\<close>); it passes no error to \<^verbatim>\<open>next\<close>. A delete-GET
  whose id is no ObjectId passes the cast's error to \<^verbatim>\<open>next\<close> and calls nothing else.
  This holds for all four models.
\<close>

theorem delete_get_absent_well_formed_id:
  "(castObjectId (params_id req) = Some i \<and> findById book_id (books d) (Some i) = None \<longrightarrow>
      book_delete_get req d =
        ([Redirect (Path ''/catalog/books''),
          Render ''book_delete''
            [(''title'', VStr ''Delete Book''), (''book'', VBook None),
             (''book_instances'',
              VBookInstances (filter (\<lambda>c. holds (book c) (Some i)) (bookinstances d)))]],
         d))
   \<and> (castObjectId (params_id req) = Some i \<and> findById author_id (authors d) (Some i) = None \<longrightarrow>
      author_delete_get req d =
        ([Redirect (Path ''/catalog/authors''),
          Render ''author_delete''
            [(''title'', VStr ''Delete Author''), (''author'', VAuthor None),
             (''author_books'', VBooks (filter (\<lambda>b. holds (author b) (Some i)) (books d)))]],
         d))
   \<and> (castObjectId (params_id req) = Some i \<and> findById genre_id (genres d) (Some i) = None \<longrightarrow>
      genre_delete_get req d =
        ([Redirect (Path ''/catalog/genres''),
          Render ''genre_delete''
            [(''title'', VStr ''Delete Genre''), (''genre'', VGenre None),
             (''genre_books'', VBooks (filter (\<lambda>b. matches (genre b) (Some i)) (books d)))]],
         d))
   \<and> (castObjectId (params_id req) = Some i \<and>
      findById bookinstance_id (bookinstances d) (Some i) = None \<longrightarrow>
      bookinstance_delete_get req d =
        ([Redirect (Path ''/catalog/bookinstances''),
          Render ''bookinstance_delete''
            [(''title'', VStr ''Delete BookInstance''), (''bookinstance'', VBookInstance None)]],
         d))
   \<and> (castObjectId (params_id req) = None \<longrightarrow>
      book_delete_get req d = ([Next CastError], d) \<and>
      author_delete_get req d = ([Next CastError], d) \<and>
      genre_delete_get req d = ([Next CastError], d) \<and>
      bookinstance_delete_get req d = ([Next CastError], d))"
  by (simp add: book_delete_get_def author_delete_get_def genre_delete_get_def
      bookinstance_delete_get_def run_defs on_id_Str)

theorem delete_get_absent_well_formed_id_witness:
  "castObjectId id_absent = Some id_absent
   \<and> findById book_id (books library) (Some id_absent) = None
   \<and> book_delete_get \<lparr>params_id = id_absent, body = [], errors = []\<rparr> library =
        ([Redirect (Path ''/catalog/books''),
          Render ''book_delete''
            [(''title'', VStr ''Delete Book''), (''book'', VBook None),
             (''book_instances'', VBookInstances [])]], library)
   \<and> findById author_id (authors library) (Some id_absent) = None
   \<and> author_delete_get \<lparr>params_id = id_absent, body = [], errors = []\<rparr> library =
        ([Redirect (Path ''/catalog/authors''),
          Render ''author_delete''
            [(''title'', VStr ''Delete Author''), (''author'', VAuthor None),
             (''author_books'', VBooks [])]], library)
   \<and> findById genre_id (genres library) (Some id_absent) = None
   \<and> genre_delete_get \<lparr>params_id = id_absent, body = [], errors = []\<rparr> library =
        ([Redirect (Path ''/catalog/genres''),
          Render ''genre_delete''
            [(''title'', VStr ''Delete Genre''), (''genre'', VGenre None),
             (''genre_books'', VBooks [])]], library)
   \<and> findById bookinstance_id (bookinstances library) (Some id_absent) = None
   \<and> bookinstance_delete_get \<lparr>params_id = id_absent, body = [], errors = []\<rparr> library =
        ([Redirect (Path ''/catalog/bookinstances''),
          Render ''bookinstance_delete''
            [(''title'', VStr ''Delete BookInstance''), (''bookinstance'', VBookInstance None)]],
         library)
   \<and> castObjectId ''zz'' = None
   \<and> genre_delete_get \<lparr>params_id = ''zz'', body = [], errors = []\<rparr> library
       = ([Next CastError], library)"
proof -
  let ?req = "\<lparr>params_id = id_absent, body = [], errors = []\<rparr>"
  let ?bad = "\<lparr>params_id = ''zz'', body = [], errors = []\<rparr>"
  have cast: "castObjectId (params_id ?req) = Some id_absent" "castObjectId (params_id ?bad) = None"
    by (simp_all add: castObjectId_examples castObjectId_malformed)
  have absent:
    "findById book_id (books library) (Some id_absent) = None"
    "findById author_id (authors library) (Some id_absent) = None"
    "findById genre_id (genres library) (Some id_absent) = None"
    "findById bookinstance_id (bookinstances library) (Some id_absent) = None"
    by (simp_all add: findById_def example_defs)
  have none:
    "filter (\<lambda>c. holds (book c) (Some id_absent)) (bookinstances library) = []"
    "filter (\<lambda>b. holds (author b) (Some id_absent)) (books library) = []"
    "filter (\<lambda>b. matches (genre b) (Some id_absent)) (books library) = []"
    by (simp_all add: matches_def holds_def ref_id_def castObjectId_examples elems_def
        example_defs)
  show ?thesis
    using delete_get_absent_well_formed_id [of ?req id_absent library]
      delete_get_absent_well_formed_id [of ?bad id_absent library] cast absent none
    by simp
qed

text \<open>A delete-GET for a stored document only renders.\<close>

lemma book_delete_get_present:
  "castObjectId (params_id req) = Some i \<Longrightarrow> findById book_id (books d) (Some i) = Some b \<Longrightarrow>
   \<exists>ls. book_delete_get req d = ([Render ''book_delete'' ls], d)"
  by (simp add: book_delete_get_def run_defs on_id_well_formed)

subsection \<open>The genre field of a book form\<close>

lemma genre_to_array_absent:
  "field (body req) ''genre'' = Undefined \<Longrightarrow>
   genre_to_array req = Inr (req\<lparr>body := set_field ''genre'' (Arr []) (body req)\<rparr>)"
  by (simp add: genre_to_array_def is_Array_def)

lemma genre_to_array_array:
  "field (body req) ''genre'' = Arr vs \<Longrightarrow> genre_to_array req = Inr req"
  by (simp add: genre_to_array_def is_Array_def)

text \<open>A single value that is not a number becomes the only element.\<close>

lemma genre_to_array_single:
  "field (body req) ''genre'' = v \<Longrightarrow> v \<noteq> Undefined \<Longrightarrow> \<not> is_Array v \<Longrightarrow> \<forall>n. v \<noteq> Num n \<Longrightarrow>
   genre_to_array req = Inr (req\<lparr>body := set_field ''genre'' (Arr [v]) (body req)\<rparr>)"
  by (cases v) (simp_all add: genre_to_array_def new_Array_def)

text \<open>A number becomes an array of that many empty slots, or a RangeError.\<close>

lemma genre_to_array_number:
  "field (body req) ''genre'' = Num n \<Longrightarrow>
   genre_to_array req =
     (if 0 \<le> n \<and> n < 2 ^ 32
      then Inr (req\<lparr>body := set_field ''genre'' (Arr (replicate (nat n) Undefined)) (body req)\<rparr>)
      else Inl RangeError)"
  by (simp add: genre_to_array_def new_Array_def is_Array_def)

lemma is_Array_sanitize: "is_Array (sanitize f v) = is_Array v"
  by (cases v) (simp_all add: sanitize_def is_Array_def)

text \<open>Whatever \<^verbatim>\<open>book_create_post\<close> adds to the store has an array as its genre.\<close>

lemma book_create_post_genre_is_Array:
  assumes "b \<in> set (books (snd (book_create_post fresh req d)))" and "b \<notin> set (books d)"
  shows "is_Array (genre b)"
proof (cases "genre_to_array req")
  case (Inl e)
  with assms show ?thesis
    by (simp add: book_create_post_def)
next
  case (Inr r)
  define s where "s = book_create_post_fields r"
  have run: "book_create_post fresh req d = book_create_post_handler fresh s d"
    by (simp add: book_create_post_def Inr s_def)
  have "field (body s) ''genre'' =
      (case sanitize (escape \<circ> trim) (field (body r) ''genre'') of
         Arr vs \<Rightarrow> Arr (map (sanitize (escape \<circ> trim)) vs) | v \<Rightarrow> v)"
    by (simp add: s_def book_create_post_fields_def field_sanitizeBody_each
        field_sanitizeBody_all field_body_isLength_trim)
  then have arr: "is_Array (field (body s) ''genre'')"
    using genre_to_array_is_Array [OF Inr]
    by (cases "field (body r) ''genre''") (simp_all add: sanitize_def is_Array_def)
  from assms show ?thesis
    unfolding run using arr
    by (auto simp: book_create_post_handler_def Let_def run_defs Book_save_def save_def
        split: if_splits)
qed

text \<open>A book can be created with no genre selected.\<close>

lemma book_create_post_without_genre:
  "book_create_post id_b2
     \<lparr>params_id = [],
      body = [(''title'', Str ''Persuasion''), (''author'', Str id_a1),
              (''summary'', Str ''Another novel''), (''isbn'', Str ''0141439688'')],
      errors = []\<rparr> library
   = ([Redirect (Detail Book id_b2)],
      library\<lparr>books := [emma, persuasion\<lparr>book_id := id_b2\<rparr>]\<rparr>)"
  by (simp add: book_create_post_def genre_to_array_def is_Array_def field_def
      book_create_post_handler_def book_create_post_fields_def body_isLength_trim_def sanitizeBody_def sanitizeBody_all_def
      sanitizeBody_each_def sanitize_def trim_def is_space_def escape_def escape_char_def
      isLength_min_def toString_def toString_flat_def run_defs Book_save_def save_def example_defs
      persuasion_def)

text \<open>
  C10. The claim: before validation the genre field becomes the empty list when absent and
  a one-element list when it is a single value that is not an array, so that the genre
  saved is always a list. Absent values, arrays and single values other than numbers are
  treated so (the lemmas above), and what is saved is an array. The single value is
  wrapped with \<^verbatim>\<open>new Array(req.body.genre)\<close>: a JSON body whose genre is the number 2
  gets an array of two empty slots, not the list holding 2, and that array is saved with the
  book.
\<close>

theorem genre_to_array_number_is_length:
  "genre_to_array
     \<lparr>params_id = [],
      body = [(''title'', Str ''Persuasion''), (''author'', Str id_a1),
              (''summary'', Str ''Another novel''), (''isbn'', Str ''0141439688''),
              (''genre'', Num 2)],
      errors = []\<rparr>
   = Inr \<lparr>params_id = [],
          body = [(''title'', Str ''Persuasion''), (''author'', Str id_a1),
                  (''summary'', Str ''Another novel''), (''isbn'', Str ''0141439688''),
                  (''genre'', Arr [Undefined, Undefined])],
          errors = []\<rparr>
   \<and> book_create_post id_b2
       \<lparr>params_id = [],
        body = [(''title'', Str ''Persuasion''), (''author'', Str id_a1),
                (''summary'', Str ''Another novel''), (''isbn'', Str ''0141439688''),
                (''genre'', Num 2)],
        errors = []\<rparr> library
     = ([Redirect (Detail Book id_b2)],
        library\<lparr>books := [emma, persuasion\<lparr>book_id := id_b2, genre := Arr [Undefined, Undefined]\<rparr>]\<rparr>)"
  by (simp add: book_create_post_def genre_to_array_def new_Array_def is_Array_def field_def
      book_create_post_handler_def book_create_post_fields_def body_isLength_trim_def sanitizeBody_def sanitizeBody_all_def
      sanitizeBody_each_def sanitize_def trim_def is_space_def escape_def escape_char_def
      isLength_min_def toString_def toString_flat_def run_defs Book_save_def save_def example_defs
      persuasion_def numeral_2_eq_2)

end
